theory Spec2Isabelle
  imports Complex_Main "HOL-Library.AList"
begin

section \<open>Values and exceptions\<close>

text \<open>
  Python values that travel through the runner are JSON-shaped: request parameters
  generated from a JSON schema, decoded response bodies, stored dependency values.
  \<open>JNull\<close> is Python's \<open>None\<close>; a \<open>dict\<close> is an association list whose keys are
  unique (insertion order is kept, as Python keeps it), read with \<open>map_of\<close> and written
  with \<open>AList.update\<close>. Strings are ASCII text; numbers are integers.
\<close>

datatype json =
    JNull
  | JBool bool
  | JNum int
  | JStr string
  | JBytes string
  | JArr "json list"
  | JObj "(string \<times> json) list"

text \<open>
  The exceptions the code raises or handles. An \<open>AssertionError\<close> carries its
  arguments (\<open>exc.args\<close>, here strings): none for a bare \<open>assert\<close>, one for an
  \<open>assert\<close> with a message. \<open>KeyboardInterrupt\<close> derives from \<open>BaseException\<close> only,
  so \<open>except Exception\<close> does not catch it.

  Modelled from the spec: the class of the grouped failure is built in \<open>exceptions.py\<close>,
  which is not among the sources. The spec calls it one grouped failure condition that
  bundles the individual assertion failures and that callers classify as a failure:
  \<open>GroupedException\<close>, with the bundled messages, caught as an \<open>AssertionError\<close>.
\<close>

datatype exn =
    AssertionError "string list"
  | GroupedException "string list"
  | MultipleFailures
  | Flaky string
  | Unsatisfiable string
  | InvalidSchema string
  | KeyboardInterrupt
  | ValueError string
  | TypeError
  | KeyError
  | IndexError
  | AttributeError
  | JSONDecodeError
  | MissingDependency
  | OtherError string

fun is_Exception :: "exn \<Rightarrow> bool" where
  "is_Exception KeyboardInterrupt = False"
| "is_Exception _ = True"

fun is_AssertionError :: "exn \<Rightarrow> bool" where
  "is_AssertionError (AssertionError _) = True"
| "is_AssertionError (GroupedException _) = True"
| "is_AssertionError _ = False"

text \<open>Python truthiness of a value (\<open>if x:\<close>, \<open>bool(x)\<close>).\<close>

fun truthy :: "json \<Rightarrow> bool" where
  "truthy JNull = False"
| "truthy (JBool b) = b"
| "truthy (JNum n) = (n \<noteq> 0)"
| "truthy (JStr s) = (s \<noteq> [])"
| "truthy (JBytes s) = (s \<noteq> [])"
| "truthy (JArr xs) = (xs \<noteq> [])"
| "truthy (JObj kvs) = (kvs \<noteq> [])"

section \<open>models.py\<close>

record Endpoint =
  ep_path :: string
  ep_method :: string
  ep_validate_schema :: bool  \<comment> \<open>\<open>endpoint.schema.validate_schema\<close>\<close>
  ep_base_url :: "string option"
  ep_path_parameters :: json
  ep_headers :: json
  ep_cookies :: json
  ep_query :: json
  ep_body :: json
  ep_form_data :: json

record Case =
  endpoint :: Endpoint
  path_parameters :: json
  headers :: json
  cookies :: json
  query :: json
  body :: json
  form_data :: json

datatype Status = success | failure | error

record Check =
  check_name :: string
  check_value :: Status
  example :: "Case option"
  message :: "string option"

record Request =
  req_path :: string
  req_method :: string
  req_base_url :: "string option"
  req_headers :: json
  req_cookies :: json
  req_query :: json
  req_body :: json
  req_form_data :: json

definition from_case :: "Case \<Rightarrow> Request" where
  "from_case c =
     \<lparr> req_path = ep_path (endpoint c),
       req_method = ep_method (endpoint c),
       req_base_url = ep_base_url (endpoint c),
       req_headers = headers c,
       req_cookies = cookies c,
       req_query = query c,
       req_body = body c,
       req_form_data = form_data c \<rparr>"

text \<open>
  \<open>requests.Response\<close> as the runner reads it. \<open>elapsed\<close> is
  \<open>response.elapsed.total_seconds()\<close>, a clock reading kept as an integer.
\<close>

record GenericResponse =
  url :: string
  status_code :: int
  content :: "string option"
  response_text :: string
  response_headers :: "(string \<times> string) list"
  elapsed :: int

record Response =
  rsp_url :: string
  rsp_status_code :: int
  rsp_content :: "string option"  \<comment> \<open>base64-encoded response body\<close>
  rsp_headers :: "(string \<times> string) list"
  rsp_elapsed :: int

record Session =
  session_headers :: "(string \<times> json) list"  \<comment> \<open>a case-insensitive dictionary\<close>

text \<open>
  The standard library, the clock and the network, which the code calls and this theory
  does not define: \<open>json.loads\<close> (\<open>None\<close> when it raises), \<open>base64.b64encode\<close>,
  \<open>str\<close> of a number of seconds, \<open>str(time.time())\<close>, \<open>str\<close> of an exception with
  two arguments or more, and \<open>session.request\<close> on the arguments that
  \<open>as_requests_kwargs\<close> builds from the case (the response, or the exception raised).

  \<open>get_grouped_exception\<close> is a function of \<open>exceptions.py\<close>, which is not among the
  sources: it is taken as it is called, on the arguments of the collected exceptions,
  and gives the exception to raise, or the exception that the call itself raises.
\<close>

record externals =
  loads :: "string \<Rightarrow> json option"
  b64encode :: "string \<Rightarrow> string"
  seconds_str :: "int \<Rightarrow> string"
  time_str :: string
  args_str :: "string list \<Rightarrow> string"
  session_request :: "Case \<Rightarrow> Session \<Rightarrow> rat option \<Rightarrow> exn + GenericResponse"
  get_grouped_exception :: "string list list \<Rightarrow> exn + exn"

definition to_base64 :: "externals \<Rightarrow> string option \<Rightarrow> string option" where
  "to_base64 ext payload = (case payload of None \<Rightarrow> None | Some b \<Rightarrow> Some (b64encode ext b))"

definition from_requests :: "externals \<Rightarrow> GenericResponse \<Rightarrow> Response" where
  "from_requests ext r =
     \<lparr> rsp_url = url r,
       rsp_status_code = status_code r,
       rsp_content = to_base64 ext (content r),
       rsp_headers = response_headers r,
       rsp_elapsed = elapsed r \<rparr>"

record Interaction =
  request :: Request
  response :: Response

definition interaction_from_requests :: "externals \<Rightarrow> Case \<Rightarrow> GenericResponse \<Rightarrow> Interaction" where
  "interaction_from_requests ext c r = \<lparr> request = from_case c, response = from_requests ext r \<rparr>"

text \<open>
  \<open>TestResult\<close>. The last three fields are what \<open>add_status_code\<close>,
  \<open>add_response_error_result\<close> and \<open>add_response_elapsed_time\<close> of the runner's own
  \<open>models\<close> module record; see \<open>add_status_code\<close> below.
\<close>

record TestResult =
  tr_endpoint :: Endpoint
  checks :: "Check list"
  errors :: "(exn \<times> Case option) list"
  interactions :: "Interaction list"
  logs :: "string list"
  is_errored :: bool
  seed :: "int option"
  status_codes :: "int list"
  response_error_results :: "json list"
  response_elapsed_times :: "string list"

definition new_TestResult :: "Endpoint \<Rightarrow> TestResult" where
  "new_TestResult ep =
     \<lparr> tr_endpoint = ep, checks = [], errors = [], interactions = [], logs = [],
       is_errored = False, seed = None, status_codes = [], response_error_results = [],
       response_elapsed_times = [] \<rparr>"

definition mark_errored :: "TestResult \<Rightarrow> TestResult" where
  "mark_errored r = r\<lparr>is_errored := True\<rparr>"

definition has_errors :: "TestResult \<Rightarrow> bool" where
  "has_errors r = (errors r \<noteq> [])"

definition has_failures :: "TestResult \<Rightarrow> bool" where
  "has_failures r = list_ex (\<lambda>c. check_value c = failure) (checks r)"

definition add_success :: "string \<Rightarrow> Case \<Rightarrow> TestResult \<Rightarrow> TestResult" where
  "add_success n ex r =
     r\<lparr>checks := checks r @
        [\<lparr>check_name = n, check_value = success, example = Some ex, message = None\<rparr>]\<rparr>"

definition add_failure :: "string \<Rightarrow> Case \<Rightarrow> string \<Rightarrow> TestResult \<Rightarrow> TestResult" where
  "add_failure n ex msg r =
     r\<lparr>checks := checks r @
        [\<lparr>check_name = n, check_value = failure, example = Some ex, message = Some msg\<rparr>]\<rparr>"

definition add_error :: "exn \<Rightarrow> Case option \<Rightarrow> TestResult \<Rightarrow> TestResult" where
  "add_error e ex r = r\<lparr>errors := errors r @ [(e, ex)]\<rparr>"

definition store_requests_response ::
  "externals \<Rightarrow> Case \<Rightarrow> GenericResponse \<Rightarrow> TestResult \<Rightarrow> TestResult" where
  "store_requests_response ext c rsp r =
     r\<lparr>interactions := interactions r @ [interaction_from_requests ext c rsp]\<rparr>"

text \<open>
  Modelled from the spec: \<open>add_status_code\<close>, \<open>add_response_error_result\<close> and
  \<open>add_response_elapsed_time\<close> are methods of the runner's \<open>TestResult\<close> that
  \<open>models.py\<close> does not have. The spec says the status code, the response error result
  (or a success marker) and the elapsed time are recorded; each is appended to a list of
  its own.
\<close>

definition add_status_code :: "int \<Rightarrow> TestResult \<Rightarrow> TestResult" where
  "add_status_code sc r = r\<lparr>status_codes := status_codes r @ [sc]\<rparr>"

definition add_response_error_result :: "json \<Rightarrow> TestResult \<Rightarrow> TestResult" where
  "add_response_error_result v r = r\<lparr>response_error_results := response_error_results r @ [v]\<rparr>"

definition add_response_elapsed_time :: "string \<Rightarrow> TestResult \<Rightarrow> TestResult" where
  "add_response_elapsed_time s r = r\<lparr>response_elapsed_times := response_elapsed_times r @ [s]\<rparr>"

record TestResultSet =
  results :: "TestResult list"

definition empty_TestResultSet :: TestResultSet where
  "empty_TestResultSet = \<lparr> results = [] \<rparr>"

definition append_result :: "TestResult \<Rightarrow> TestResultSet \<Rightarrow> TestResultSet" where
  "append_result item rs = rs\<lparr>results := results rs @ [item]\<rparr>"

text \<open>\<open>_count\<close>: \<open>sum(1 for result in self if predicate(result))\<close>.\<close>

definition count_results :: "(TestResult \<Rightarrow> bool) \<Rightarrow> TestResultSet \<Rightarrow> int" where
  "count_results predicate rs = sum_list (map (\<lambda>_. 1) (filter predicate (results rs)))"

definition passed_count :: "TestResultSet \<Rightarrow> int" where
  "passed_count rs = count_results (\<lambda>r. \<not> has_errors r \<and> \<not> has_failures r) rs"

definition failed_count :: "TestResultSet \<Rightarrow> int" where
  "failed_count rs = count_results (\<lambda>r. has_failures r \<and> \<not> is_errored r) rs"

definition errored_count :: "TestResultSet \<Rightarrow> int" where
  "errored_count rs = count_results (\<lambda>r. has_errors r \<or> is_errored r) rs"

text \<open>
  \<open>Case.call\<close>: without a base URL the call raises before anything is sent.
\<close>

definition call :: "externals \<Rightarrow> Case \<Rightarrow> Session \<Rightarrow> rat option \<Rightarrow> exn + GenericResponse" where
  "call ext c session timeout =
     (case ep_base_url (endpoint c) of
        None \<Rightarrow>
          Inl (ValueError
            (''Base URL is required as `base_url` argument in `call` or should be specified ''
             @ ''in the schema constructor as a part of Schema URL.''))
      | Some base_url \<Rightarrow> session_request ext c session timeout)"

section \<open>Python strings and containers\<close>

definition lower_char :: "char \<Rightarrow> char" where
  "lower_char c =
     (case map_of (zip ''ABCDEFGHIJKLMNOPQRSTUVWXYZ'' ''abcdefghijklmnopqrstuvwxyz'') c of
        None \<Rightarrow> c
      | Some l \<Rightarrow> l)"

definition lower :: "string \<Rightarrow> string" where
  "lower s = map lower_char s"

text \<open>\<open>s.split(":")\<close>.\<close>

fun split_colon :: "string \<Rightarrow> string list" where
  "split_colon [] = [[]]"
| "split_colon (c # cs) =
     (if c = CHR '':'' then [] # split_colon cs
      else (case split_colon cs of [] \<Rightarrow> [[c]] | w # ws \<Rightarrow> (c # w) # ws))"

fun startswith :: "string \<Rightarrow> string \<Rightarrow> bool" where
  "startswith s [] = True"
| "startswith [] (p # ps) = False"
| "startswith (c # cs) (p # ps) = (c = p \<and> startswith cs ps)"

text \<open>\<open>sub in s\<close> on strings.\<close>

fun contains :: "string \<Rightarrow> string \<Rightarrow> bool" where
  "contains sub [] = (sub = [])"
| "contains sub (c # cs) = (startswith (c # cs) sub \<or> contains sub cs)"

text \<open>\<open>xs[i]\<close> on a list, \<open>d[k] = v\<close>, \<open>k in d\<close> and \<open>d.get(k, None)\<close> on a value.\<close>

definition getitem :: "'a list \<Rightarrow> nat \<Rightarrow> exn + 'a" where
  "getitem xs i = (if i < length xs then Inr (xs ! i) else Inl IndexError)"

definition setitem :: "json \<Rightarrow> string \<Rightarrow> json \<Rightarrow> exn + json" where
  "setitem d k v =
     (case d of JObj kvs \<Rightarrow> Inr (JObj (AList.update k v kvs)) | _ \<Rightarrow> Inl TypeError)"

definition py_in :: "string \<Rightarrow> json \<Rightarrow> exn + bool" where
  "py_in k d =
     (case d of
        JObj kvs \<Rightarrow> Inr (map_of kvs k \<noteq> None)
      | JStr s \<Rightarrow> Inr (contains k s)
      | JArr xs \<Rightarrow> Inr (List.member xs (JStr k))
      | _ \<Rightarrow> Inl TypeError)"

definition dict_get :: "json \<Rightarrow> string \<Rightarrow> exn + json" where
  "dict_get d k =
     (case d of
        JObj kvs \<Rightarrow> Inr (case map_of kvs k of None \<Rightarrow> JNull | Some v \<Rightarrow> v)
      | _ \<Rightarrow> Inl AttributeError)"

text \<open>\<open>a or b\<close> on optional integers: \<open>None\<close> and \<open>0\<close> are falsy.\<close>

definition py_or :: "int option \<Rightarrow> int option \<Rightarrow> int option" where
  "py_or a b = (case a of None \<Rightarrow> b | Some n \<Rightarrow> if n \<noteq> 0 then Some n else b)"

section \<open>The dependency store and the ordered-dependency map\<close>

text \<open>
  Modelled from the spec: the class of \<open>store_response\<close> (\<open>store_result\<close>,
  \<open>get_store_result\<close>) is not among the sources. The spec's DependencyStore is a mapping
  from a key \<open>method:path\<close> to a mapping from field name to the last value seen;
  \<open>store\<close> overwrites unconditionally, \<open>get\<close> fails with a MissingDependency condition
  when the key or the field is absent.
\<close>

type_synonym DependencyStore = "(string \<times> (string \<times> json) list) list"

definition store_result :: "string \<Rightarrow> string \<Rightarrow> json \<Rightarrow> DependencyStore \<Rightarrow> DependencyStore" where
  "store_result key field v st =
     AList.update key (AList.update field v (case map_of st key of None \<Rightarrow> [] | Some m \<Rightarrow> m)) st"

definition get_store_result :: "string \<Rightarrow> string \<Rightarrow> DependencyStore \<Rightarrow> exn + json" where
  "get_store_result key field st =
     (case map_of st key of
        None \<Rightarrow> Inl MissingDependency
      | Some m \<Rightarrow> (case map_of m field of None \<Rightarrow> Inl MissingDependency | Some v \<Rightarrow> Inr v))"

text \<open>
  \<open>execute_in_order\<close>: \<open>{"method:path": {"required": {location: {field:
  "producerMethod:producerPath:producerField"}}, "store": [fieldNames]}}\<close>, or \<open>None\<close>.
\<close>

record order_entry =
  required :: "(string \<times> (string \<times> string) list) list option"
  store :: "string list option"

type_synonym execute_in_order = "(string \<times> order_entry) list option"

text \<open>\<open>if execute_in_order:\<close> -- neither \<open>None\<close> nor the empty dictionary.\<close>

definition declared :: "execute_in_order \<Rightarrow> bool" where
  "declared eio = (case eio of None \<Rightarrow> False | Some m \<Rightarrow> m \<noteq> [])"

definition entries :: "execute_in_order \<Rightarrow> (string \<times> order_entry) list" where
  "entries eio = (case eio of None \<Rightarrow> [] | Some m \<Rightarrow> m)"

section \<open>runner/impl/core.py: one case\<close>

subsection \<open>\<open>update_case_header\<close>\<close>

text \<open>
  \<open>session.headers\<close> is a case-insensitive dictionary: \<open>h in session.headers\<close> and
  \<open>session.headers.get(h)\<close> compare lower-cased names.
\<close>

definition ci_get :: "string \<Rightarrow> (string \<times> json) list \<Rightarrow> json option" where
  "ci_get h hs = map_of (map (\<lambda>(k, v). (lower k, v)) hs) (lower h)"

fun override_headers ::
  "(string \<times> json) list \<Rightarrow> string list \<Rightarrow> (string \<times> json) list \<Rightarrow> (string \<times> json) list" where
  "override_headers sess [] kvs = kvs"
| "override_headers sess (h # hs) kvs =
     (case ci_get h sess of
        None \<Rightarrow> override_headers sess hs kvs
      | Some v \<Rightarrow> override_headers sess hs (AList.update h v kvs))"

text \<open>
  Headers that are truthy but not a dictionary: the loop runs over the elements. A
  string element found among the session's headers makes the assignment raise
  \<open>TypeError\<close>; an element with no \<open>lower\<close> method makes the membership test raise
  \<open>AttributeError\<close>.
\<close>

fun scan_names :: "(string \<times> json) list \<Rightarrow> json list \<Rightarrow> exn option" where
  "scan_names sess [] = None"
| "scan_names sess (JStr s # hs) =
     (if ci_get s sess \<noteq> None then Some TypeError else scan_names sess hs)"
| "scan_names sess (JBytes b # hs) = scan_names sess hs"
| "scan_names sess (h # hs) = Some AttributeError"

definition update_case_header :: "Case \<Rightarrow> Session \<Rightarrow> Case \<times> exn option" where
  "update_case_header c session =
     (if truthy (headers c) then
        (case headers c of
           JObj kvs \<Rightarrow>
             (c\<lparr>headers := JObj (override_headers (session_headers session) (map fst kvs) kvs)\<rparr>, None)
         | JArr xs \<Rightarrow> (c, scan_names (session_headers session) xs)
         | JStr s \<Rightarrow> (c, scan_names (session_headers session) (map (\<lambda>ch. JStr [ch]) s))
         | JBytes b \<Rightarrow> (c, Some AttributeError)
         | _ \<Rightarrow> (c, Some TypeError))
      else (c, None))"

subsection \<open>\<open>check_if_change_required\<close>\<close>

text \<open>
  \<open>p = depends.split(":")\<close>, then \<open>store_response.get_store_result(p[0]+":"+p[1], p[2])\<close>.
  \<open>store_response\<close> may be \<open>None\<close>, and then the attribute lookup raises.
\<close>

definition read_dependency :: "DependencyStore option \<Rightarrow> string \<Rightarrow> exn + json" where
  "read_dependency store_response depends =
     (let p = split_colon depends in
      case store_response of
        None \<Rightarrow> Inl AttributeError
      | Some st \<Rightarrow>
          (case getitem p 0 of
             Inl e \<Rightarrow> Inl e
           | Inr p0 \<Rightarrow>
               (case getitem p 1 of
                  Inl e \<Rightarrow> Inl e
                | Inr p1 \<Rightarrow>
                    (case getitem p 2 of
                       Inl e \<Rightarrow> Inl e
                     | Inr p2 \<Rightarrow> get_store_result (p0 @ '':'' @ p1) p2 st))))"

text \<open>
  The three branches of the source (\<open>path_parameters\<close>, \<open>query\<close>, \<open>body\<close>) run the same
  loop on three fields of the case; \<open>typ\<close> selects the field. The case is changed in
  place, so what was written before an exception stays written: the functions return
  the case as it is when they stop, with the exception if there is one.
\<close>

definition get_location :: "string \<Rightarrow> Case \<Rightarrow> json" where
  "get_location typ c =
     (if typ = ''path_parameters'' then path_parameters c
      else if typ = ''query'' then query c
      else body c)"

definition set_location :: "string \<Rightarrow> json \<Rightarrow> Case \<Rightarrow> Case" where
  "set_location typ v c =
     (if typ = ''path_parameters'' then c\<lparr>path_parameters := v\<rparr>
      else if typ = ''query'' then c\<lparr>query := v\<rparr>
      else c\<lparr>body := v\<rparr>)"

text \<open>The locations that \<open>check_if_change_required\<close> has a branch for.\<close>

definition location_name :: "string \<Rightarrow> bool" where
  "location_name typ = (typ = ''path_parameters'' \<or> typ = ''query'' \<or> typ = ''body'')"

fun resolve_fields ::
  "DependencyStore option \<Rightarrow> string \<Rightarrow> (string \<times> string) list \<Rightarrow> Case \<Rightarrow> Case \<times> exn option" where
  "resolve_fields store_response typ [] c = (c, None)"
| "resolve_fields store_response typ ((path_param, depends) # rest) c =
     (case read_dependency store_response depends of
        Inl e \<Rightarrow> (c, Some e)
      | Inr v \<Rightarrow>
          (case setitem (get_location typ c) path_param v of
             Inl e \<Rightarrow> (c, Some e)
           | Inr d \<Rightarrow> resolve_fields store_response typ rest (set_location typ d c)))"

fun resolve_required ::
  "DependencyStore option \<Rightarrow> (string \<times> (string \<times> string) list) list \<Rightarrow> Case \<Rightarrow> Case \<times> exn option" where
  "resolve_required store_response [] c = (c, None)"
| "resolve_required store_response ((typ, val) # rest) c =
     (if typ = ''path_parameters'' \<or> typ = ''query'' \<or> typ = ''body'' then
        (case resolve_fields store_response typ val c of
           (c', Some e) \<Rightarrow> (c', Some e)
         | (c', None) \<Rightarrow> resolve_required store_response rest c')
      else resolve_required store_response rest c)"

text \<open>\<open>except Exception: pass\<close>.\<close>

definition swallow :: "'a \<times> exn option \<Rightarrow> 'a \<times> exn option" where
  "swallow r =
     (case r of
        (x, None) \<Rightarrow> (x, None)
      | (x, Some e) \<Rightarrow> if is_Exception e then (x, None) else (x, Some e))"

definition check_if_change_required ::
  "externals \<Rightarrow> Case \<Rightarrow> execute_in_order \<Rightarrow> DependencyStore option \<Rightarrow> Case \<times> exn option" where
  "check_if_change_required ext c eio store_response =
     (let path = lower (ep_path (endpoint c));
          method = lower (ep_method (endpoint c)) in
      if declared eio then
        swallow
          (case map_of (entries eio) (method @ '':'' @ path) of
             None \<Rightarrow> (c, None)
           | Some entry \<Rightarrow>
               (case required entry of
                  None \<Rightarrow> (c, None)
                | Some req \<Rightarrow> if req = [] then (c, None) else resolve_required store_response req c))
      else if contains ''/notes'' path \<and> truthy (path_parameters c) then
        (case py_in ''note_id'' (path_parameters c) of
           Inl e \<Rightarrow> (c, Some e)
         | Inr True \<Rightarrow>
             (case store_response of
                None \<Rightarrow> (c, Some AttributeError)
              | Some st \<Rightarrow>
                  (case get_store_result ''post:/notes'' ''id'' st of
                     Inl e \<Rightarrow> (c, Some e)
                   | Inr v \<Rightarrow>
                       (case setitem (path_parameters c) ''note_id'' v of
                          Inl e \<Rightarrow> (c, Some e)
                        | Inr d \<Rightarrow> (c\<lparr>path_parameters := d\<rparr>, None))))
         | Inr False \<Rightarrow>
             (if path = ''/notes'' \<and> method = ''post'' then
                (case setitem (body c) ''ref'' (JStr (time_str ext @ ''platform_testing'')) of
                   Inl e \<Rightarrow> (c, Some e)
                 | Inr d \<Rightarrow> (c\<lparr>body := d\<rparr>, None))
              else (c, None)))
      else if path = ''/notes'' \<and> method = ''post'' then
        (case setitem (body c) ''ref'' (JStr (time_str ext @ ''platform_testing'')) of
           Inl e \<Rightarrow> (c, Some e)
         | Inr d \<Rightarrow> (c\<lparr>body := d\<rparr>, None))
      else (c, None))"

subsection \<open>\<open>check_if_storing_required\<close>\<close>

text \<open>
  \<open>store_response.store_result(key, to_store, json.loads(response.text).get(to_store, None))\<close>:
  the attribute lookup on \<open>store_response\<close> comes first, then the arguments.
\<close>

definition store_field ::
  "externals \<Rightarrow> string \<Rightarrow> GenericResponse \<Rightarrow> string \<Rightarrow> DependencyStore option
     \<Rightarrow> DependencyStore option \<times> exn option" where
  "store_field ext key rsp to_store store_response =
     (case store_response of
        None \<Rightarrow> (None, Some AttributeError)
      | Some st \<Rightarrow>
          (case loads ext (response_text rsp) of
             None \<Rightarrow> (Some st, Some JSONDecodeError)
           | Some j \<Rightarrow>
               (case dict_get j to_store of
                  Inl e \<Rightarrow> (Some st, Some e)
                | Inr v \<Rightarrow> (Some (store_result key to_store v st), None))))"

fun store_fields ::
  "externals \<Rightarrow> string \<Rightarrow> GenericResponse \<Rightarrow> string list \<Rightarrow> DependencyStore option
     \<Rightarrow> DependencyStore option \<times> exn option" where
  "store_fields ext key rsp [] store_response = (store_response, None)"
| "store_fields ext key rsp (to_store # rest) store_response =
     (case store_field ext key rsp to_store store_response of
        (st, Some e) \<Rightarrow> (st, Some e)
      | (st, None) \<Rightarrow> store_fields ext key rsp rest st)"

definition check_if_storing_required ::
  "externals \<Rightarrow> Case \<Rightarrow> GenericResponse \<Rightarrow> execute_in_order \<Rightarrow> DependencyStore option
     \<Rightarrow> DependencyStore option \<times> exn option" where
  "check_if_storing_required ext c rsp eio store_response =
     (let path = lower (ep_path (endpoint c));
          method = lower (ep_method (endpoint c)) in
      if declared eio then
        swallow
          (case map_of (entries eio) (method @ '':'' @ path) of
             None \<Rightarrow> (store_response, None)
           | Some entry \<Rightarrow>
               (case store entry of
                  None \<Rightarrow> (store_response, None)
                | Some names \<Rightarrow>
                    if names \<noteq> [] \<and> status_code rsp \<le> 204
                    then store_fields ext (method @ '':'' @ path) rsp names store_response
                    else (store_response, None)))
      else if path = ''/notes'' \<and> method = ''post'' then
        store_field ext (method @ '':'' @ path) rsp ''id'' store_response
      else (store_response, None))"

subsection \<open>\<open>run_checks\<close>\<close>

text \<open>
  A check function has a name and, called on the response and the case, returns,
  raises an \<open>AssertionError\<close> (with its arguments), or raises something else.
\<close>

datatype check_outcome = Passes | AssertionFails "string list" | Raises exn

text \<open>
  \<open>str(exc)\<close>: empty without arguments, the argument itself when there is one.
\<close>

definition exception_str :: "externals \<Rightarrow> string list \<Rightarrow> string" where
  "exception_str ext args =
     (case args of [] \<Rightarrow> [] | [m] \<Rightarrow> m | m # m' # ms \<Rightarrow> args_str ext args)"

record CheckFunction =
  cf_name :: string
  cf_call :: "GenericResponse \<Rightarrow> Case \<Rightarrow> check_outcome"

text \<open>
  The loop over the checks. \<open>errs\<close> is the list \<open>errors\<close> of the source: the
  exceptions collected, each by its arguments.
\<close>

fun checks_loop ::
  "externals \<Rightarrow> Case \<Rightarrow> GenericResponse \<Rightarrow> CheckFunction list \<Rightarrow> TestResult
     \<Rightarrow> string list list \<Rightarrow> TestResult \<times> string list list \<times> exn option" where
  "checks_loop ext c rsp [] result errs = (result, errs, None)"
| "checks_loop ext c rsp (check # rest) result errs =
     (case cf_call check rsp c of
        Passes \<Rightarrow> checks_loop ext c rsp rest (add_success (cf_name check) c result) errs
      | AssertionFails args \<Rightarrow>
          checks_loop ext c rsp rest
            (add_failure (cf_name check) c (exception_str ext args) result) (errs @ [args])
      | Raises e \<Rightarrow> (result, errs, Some e))"

definition run_checks ::
  "externals \<Rightarrow> Case \<Rightarrow> CheckFunction list \<Rightarrow> TestResult \<Rightarrow> GenericResponse
     \<Rightarrow> TestResult \<times> exn option" where
  "run_checks ext c cks result rsp =
     (case checks_loop ext c rsp cks result [] of
        (result1, errs, Some e) \<Rightarrow> (result1, Some e)
      | (result1, errs, None) \<Rightarrow>
          (let result2 = add_status_code (status_code rsp) result1;
               result3 =
                 (if status_code rsp > 204 then
                    add_response_error_result
                      (case loads ext (response_text rsp) of
                         Some res \<Rightarrow> res
                       | None \<Rightarrow> JStr (response_text rsp))
                      result2
                  else add_response_error_result (JStr ''Success'') result2);
               result4 =
                 add_response_elapsed_time (seconds_str ext (elapsed rsp) @ '' sec'') result3
           in if errs \<noteq> [] then
                (case get_grouped_exception ext errs of
                   Inr grouped \<Rightarrow> (result4, Some grouped)
                 | Inl e \<Rightarrow> (result4, Some e))
              else (result4, None)))"



subsection \<open>\<open>network_test\<close>\<close>

definition prepare_timeout :: "int option \<Rightarrow> rat option" where
  "prepare_timeout timeout =
     (case timeout of None \<Rightarrow> None | Some t \<Rightarrow> Some (of_int t / 1000))"

text \<open>
  The test body: the result and the store as the call leaves them, and the exception
  that escapes, if any.
\<close>

definition network_test ::
  "externals \<Rightarrow> Case \<Rightarrow> CheckFunction list \<Rightarrow> TestResult \<Rightarrow> Session \<Rightarrow> int option
     \<Rightarrow> execute_in_order \<Rightarrow> DependencyStore option
     \<Rightarrow> TestResult \<times> DependencyStore option \<times> exn option" where
  "network_test ext c cks result session request_timeout eio store_response =
     (case update_case_header c session of
        (c1, Some e) \<Rightarrow> (result, store_response, Some e)
      | (c1, None) \<Rightarrow>
          (case check_if_change_required ext c1 eio store_response of
             (c2, Some e) \<Rightarrow> (result, store_response, Some e)
           | (c2, None) \<Rightarrow>
               (case call ext c2 session (prepare_timeout request_timeout) of
                  Inl e \<Rightarrow> (result, store_response, Some e)
                | Inr rsp \<Rightarrow>
                    (case check_if_storing_required ext c2 rsp eio store_response of
                       (st, Some e) \<Rightarrow> (result, st, Some e)
                     | (st, None) \<Rightarrow>
                         (case run_checks ext c2 cks result rsp of
                            (result', raised) \<Rightarrow> (result', st, raised))))))"

section \<open>runner/impl/core.py: the run loop\<close>

text \<open>
  Modelled from the spec: the module \<open>events\<close> is not among the sources. The spec lists
  the events and their fields: Initialized (scheduled count, start time),
  BeforeExecution (endpoint), AfterExecution (result, status, captured output),
  Interrupted, InternalError (exception), Finished (results, running time). Times are
  clock readings, kept as integers.
\<close>

datatype ExecutionEvent =
    Initialized nat int
  | BeforeExecution Endpoint
  | AfterExecution TestResult Status "string list"
  | Interrupted
  | InternalError exn
  | Finished TestResultSet int

text \<open>
  What running the Hypothesis test leaves behind: the result and the store as changed,
  the captured output, the exception that escaped, and the two seed attributes of the
  test function.
\<close>

record test_outcome =
  out_result :: TestResult
  out_store :: "DependencyStore option"
  out_output :: "string list"
  out_raised :: "exn option"
  out_seed :: "int option"
  out_generated_seed :: "int option"

datatype test_or_exception =
    Test "CheckFunction list \<Rightarrow> TestResult \<Rightarrow> execute_in_order \<Rightarrow> DependencyStore option \<Rightarrow> test_outcome"
  | InvalidSchemaTest string

definition flaky_example :: "TestResult \<Rightarrow> Case option" where
  "flaky_example result = (if checks result \<noteq> [] then example (last (checks result)) else None)"

text \<open>
  The \<open>except\<close> clauses of \<open>run_test\<close>, in their order: the status and the result, or
  \<open>None\<close> for \<open>KeyboardInterrupt\<close>.
\<close>

fun handle_raised :: "exn \<Rightarrow> TestResult \<Rightarrow> (Status \<times> TestResult) option" where
  "handle_raised (AssertionError m) result = Some (failure, result)"
| "handle_raised (GroupedException ms) result = Some (failure, result)"
| "handle_raised MultipleFailures result = Some (failure, result)"
| "handle_raised (Flaky m) result =
     Some (error,
       add_error
         (Flaky (''Tests on this endpoint produce unreliable results: '' @ [CHR 0x0A]
                 @ ''Falsified on the first call but did not on a subsequent one''))
         (flaky_example (mark_errored result)) (mark_errored result))"
| "handle_raised (Unsatisfiable m) result =
     Some (error,
       add_error (Unsatisfiable ''Unable to satisfy schema parameters for this endpoint'') None result)"
| "handle_raised KeyboardInterrupt result = None"
| "handle_raised e result = Some (error, add_error e None result)"

text \<open>
  \<open>run_test\<close> is a generator that appends to the shared \<open>results\<close> between its two
  events. Each event comes with the \<open>results\<close> as they are when it is yielded; the
  function also returns the results and the store at its end, and whether it was
  interrupted.
\<close>

definition run_test ::
  "Endpoint \<Rightarrow> test_or_exception \<Rightarrow> CheckFunction list \<Rightarrow> TestResultSet \<Rightarrow> execute_in_order
     \<Rightarrow> DependencyStore option
     \<Rightarrow> (ExecutionEvent \<times> TestResultSet) list \<times> TestResultSet \<times> DependencyStore option \<times> bool" where
  "run_test ep test cks rset eio store_response =
     (let result = new_TestResult ep;
          before = (BeforeExecution ep, rset)
      in case test of
           InvalidSchemaTest msg \<Rightarrow>
             (let result1 = (add_error (InvalidSchema msg) None result)\<lparr>seed := None\<rparr>;
                  rset1 = append_result result1 rset
              in ([before, (AfterExecution result1 error [], rset1)], rset1, store_response, False))
         | Test f \<Rightarrow>
             (let out = f cks result eio store_response in
              case (case out_raised out of
                      None \<Rightarrow> Some (success, out_result out)
                    | Some e \<Rightarrow> handle_raised e (out_result out)) of
                None \<Rightarrow> ([before, (Interrupted, rset)], rset, out_store out, True)
              | Some (status, result0) \<Rightarrow>
                  (let result1 = result0\<lparr>seed := py_or (out_seed out) (out_generated_seed out)\<rparr>;
                       rset1 = append_result result1 rset
                   in ([before, (AfterExecution result1 status (out_output out), rset1)],
                       rset1, out_store out, False))))"

text \<open>
  \<open>BaseRunner.execute\<close>. The generator \<open>_execute\<close> is given by what it yields (each
  event with the shared \<open>results\<close> at that moment) and the exception that ends it, if
  any. A generator left by \<open>break\<close> is not resumed.
\<close>

fun is_trigger :: "ExecutionEvent \<Rightarrow> bool" where
  "is_trigger (AfterExecution result status output) = (status = error \<or> status = failure)"
| "is_trigger _ = False"

fun execute_loop ::
  "bool \<Rightarrow> (ExecutionEvent \<times> TestResultSet) list \<Rightarrow> exn option \<Rightarrow> TestResultSet
     \<Rightarrow> ExecutionEvent list \<times> TestResultSet \<times> exn option" where
  "execute_loop exit_first [] raised rset = ([], rset, raised)"
| "execute_loop exit_first ((event, rset') # rest) raised rset =
     (if exit_first \<and> is_trigger event then ([], rset', None)
      else (case execute_loop exit_first rest raised rset' of
              (evs, final, r) \<Rightarrow> (event # evs, final, r)))"

text \<open>
  \<open>execute\<close>: the events yielded and the exception that escapes, if any. \<open>scheduled\<close>
  and \<open>start_time\<close> are what \<open>Initialized.from_schema\<close> reads, \<open>now\<close> is
  \<open>time.monotonic()\<close> at the end.
\<close>

definition execute ::
  "bool \<Rightarrow> nat \<Rightarrow> int \<Rightarrow> int \<Rightarrow> (ExecutionEvent \<times> TestResultSet) list \<times> exn option
     \<Rightarrow> ExecutionEvent list \<times> exn option" where
  "execute exit_first scheduled start_time now inner =
     (case execute_loop exit_first (fst inner) (snd inner) empty_TestResultSet of
        (evs, final, Some e) \<Rightarrow> (Initialized scheduled start_time # evs, Some e)
      | (evs, final, None) \<Rightarrow>
          (Initialized scheduled start_time # evs @ [Finished final (now - start_time)], None))"

text \<open>
  Modelled from the spec: \<open>SingleThreadRunner._execute\<close> is not among the sources. The
  spec says it iterates the endpoints sequentially, one \<open>run_test\<close> at a time, in the
  schema's order, with one dependency store shared by all of them, and that an
  Interrupted event ends the run.
\<close>

fun single_thread_execute ::
  "(Endpoint \<times> test_or_exception) list \<Rightarrow> CheckFunction list \<Rightarrow> execute_in_order
     \<Rightarrow> TestResultSet \<Rightarrow> DependencyStore option \<Rightarrow> (ExecutionEvent \<times> TestResultSet) list" where
  "single_thread_execute [] cks eio rset store_response = []"
| "single_thread_execute ((ep, test) # rest) cks eio rset store_response =
     (case run_test ep test cks rset eio store_response of
        (steps, rset1, st, interrupted) \<Rightarrow>
          if interrupted then steps
          else steps @ single_thread_execute rest cks eio rset1 st)"

section \<open>runner/__init__.py\<close>

datatype loader =
    from_uri
  | from_aiohttp
  | from_dict
  | from_file
  | from_path
  | from_wsgi
  | custom_loader string

text \<open>\<open>schema_uri\<close>: a string, or a dictionary.\<close>

datatype schema_source = SchemaStr string | SchemaDict "(string \<times> json) list"

fun is_dict :: "schema_source \<Rightarrow> bool" where
  "is_dict (SchemaDict d) = True"
| "is_dict (SchemaStr s) = False"

text \<open>\<open>validate_loader\<close>: \<open>None\<close> when it returns, the exception when it raises.\<close>

definition validate_loader :: "loader \<Rightarrow> schema_source \<Rightarrow> exn option" where
  "validate_loader ld schema_uri =
     (if \<not> List.member [from_uri, from_aiohttp, from_dict, from_file, from_path, from_wsgi] ld
      then None
      else if is_dict schema_uri then
        (if ld \<noteq> from_dict
         then Some (ValueError ''Dictionary as a schema is allowed only with `from_dict` loader'')
         else None)
      else if ld = from_dict
      then Some (ValueError ''Schema should be a dictionary for `from_dict` loader'')
      else None)"

record BaseSchema =
  schema_app :: bool  \<comment> \<open>\<open>schema.app\<close> is truthy\<close>
  endpoints_count :: nat

datatype runner_class =
    ThreadPoolWSGIRunner
  | ThreadPoolRunner
  | SingleThreadWSGIRunner
  | SingleThreadRunner

text \<open>
  What \<open>execute_from_schema\<close> calls and this theory does not define: \<open>import_app\<close>,
  \<open>load_schema\<close> (its body is calls to the loaders and to \<open>utils\<close>), the construction
  of the runner (its settings are converted there), the generator \<open>_execute\<close> of the
  runner built, and the clock.
\<close>

record collaborators =
  import_app :: "string \<Rightarrow> exn + string"
  load_schema :: "schema_source \<Rightarrow> loader \<Rightarrow> string option \<Rightarrow> exn + BaseSchema"
  build_runner :: "runner_class \<Rightarrow> BaseSchema \<Rightarrow> exn option"
  private_execute :: "runner_class \<Rightarrow> BaseSchema \<Rightarrow> (ExecutionEvent \<times> TestResultSet) list \<times> exn option"
  start_time :: int
  end_time :: int

definition select_runner :: "int \<Rightarrow> BaseSchema \<Rightarrow> runner_class" where
  "select_runner workers_num schema =
     (if workers_num > 1 then
        (if schema_app schema then ThreadPoolWSGIRunner else ThreadPoolRunner)
      else
        (if schema_app schema then SingleThreadWSGIRunner else SingleThreadRunner))"

text \<open>\<open>except Exception as exc: yield events.InternalError.from_exc(exc)\<close>.\<close>

definition catch_internal :: "ExecutionEvent list \<times> exn option \<Rightarrow> ExecutionEvent list \<times> exn option" where
  "catch_internal r =
     (case r of
        (evs, None) \<Rightarrow> (evs, None)
      | (evs, Some e) \<Rightarrow> if is_Exception e then (evs @ [InternalError e], None) else (evs, Some e))"

text \<open>
  \<open>execute_from_schema\<close> and \<open>prepare\<close>, read to the end of the stream: the events the
  caller receives, and the exception raised to the caller, if any (by the call itself
  for \<open>prepare\<close>, which runs \<open>validate_loader\<close> before it returns the generator).
\<close>

definition execute_from_schema ::
  "collaborators \<Rightarrow> schema_source \<Rightarrow> loader \<Rightarrow> string option \<Rightarrow> int \<Rightarrow> bool
     \<Rightarrow> ExecutionEvent list \<times> exn option" where
  "execute_from_schema env schema_uri ld app workers_num exit_first =
     catch_internal
       (case (case app of
                None \<Rightarrow> Inr None
              | Some a \<Rightarrow> (case import_app env a of Inl e \<Rightarrow> Inl e | Inr h \<Rightarrow> Inr (Some h))) of
          Inl e \<Rightarrow> ([], Some e)
        | Inr app' \<Rightarrow>
            (case load_schema env schema_uri ld app' of
               Inl e \<Rightarrow> ([], Some e)
             | Inr schema \<Rightarrow>
                 (case build_runner env (select_runner workers_num schema) schema of
                    Some e \<Rightarrow> ([], Some e)
                  | None \<Rightarrow>
                      execute exit_first (endpoints_count schema) (start_time env) (end_time env)
                        (private_execute env (select_runner workers_num schema) schema))))"

definition prepare ::
  "collaborators \<Rightarrow> schema_source \<Rightarrow> loader \<Rightarrow> string option \<Rightarrow> int \<Rightarrow> bool
     \<Rightarrow> ExecutionEvent list \<times> exn option" where
  "prepare env schema_uri ld app workers_num exit_first =
     (case validate_loader ld schema_uri of
        Some e \<Rightarrow> ([], Some e)
      | None \<Rightarrow> execute_from_schema env schema_uri ld app workers_num exit_first)"

section \<open>_hypothesis.py\<close>

datatype InputType = valid | invalid

definition PARAMETERS :: "string list" where
  "PARAMETERS = [''path_parameters'', ''headers'', ''cookies'', ''query'', ''body'', ''form_data'']"

text \<open>
  A strategy is the set of values it can produce. What the module calls and this theory
  does not define: \<open>from_schema\<close> and \<open>not_from_schema\<close> (which may raise),
  \<open>urllib.parse.quote_plus\<close>, \<open>utils.has_invalid_characters\<close>, the regular-expression
  search for a surrogate, and the two hook registries (a hook maps a strategy to a
  strategy).
\<close>

record generation =
  from_schema :: "json \<Rightarrow> exn + json set"
  not_from_schema :: "json \<Rightarrow> exn + json set"
  quote_plus :: "string \<Rightarrow> string"
  has_invalid_characters :: "string \<Rightarrow> string \<Rightarrow> bool"
  search_surrogate :: "string \<Rightarrow> bool"
  get_hook :: "string \<Rightarrow> (json set \<Rightarrow> json set) option"
  schema_get_hook :: "string \<Rightarrow> (json set \<Rightarrow> json set) option"

text \<open>
  Modelled from the spec: \<open>utils.is_ascii_encodable\<close> is not among the sources. The spec
  asks that names and values be ASCII-encodable: every character is below 128.
\<close>

definition is_ascii_encodable :: "string \<Rightarrow> bool" where
  "is_ascii_encodable s = list_all (\<lambda>ch. of_char ch < (128::nat)) s"

text \<open>The keys of a dictionary of this theory are strings, so only the values are tested.\<close>

fun valid_header_items :: "generation \<Rightarrow> (string \<times> json) list \<Rightarrow> bool" where
  "valid_header_items g [] = True"
| "valid_header_items g ((name, JStr v) # rest) =
     (if name = [] \<or> v = [] then False
      else if \<not> is_ascii_encodable name \<or> \<not> is_ascii_encodable v then False
      else if has_invalid_characters g name v then False
      else valid_header_items g rest)"
| "valid_header_items g ((name, other) # rest) = False"

definition is_valid_header :: "generation \<Rightarrow> json \<Rightarrow> bool" where
  "is_valid_header g hs = (case hs of JObj kvs \<Rightarrow> valid_header_items g kvs | _ \<Rightarrow> False)"

definition is_surrogate :: "generation \<Rightarrow> json \<Rightarrow> bool" where
  "is_surrogate g item = (case item of JStr s \<Rightarrow> search_surrogate g s | _ \<Rightarrow> False)"

fun valid_query_items :: "generation \<Rightarrow> (string \<times> json) list \<Rightarrow> bool" where
  "valid_query_items g [] = True"
| "valid_query_items g ((name, v) # rest) =
     (if is_surrogate g (JStr name) \<or> is_surrogate g v then False else valid_query_items g rest)"

definition is_valid_query :: "generation \<Rightarrow> json \<Rightarrow> bool" where
  "is_valid_query g q = (case q of JObj kvs \<Rightarrow> valid_query_items g kvs | _ \<Rightarrow> False)"

fun valid_cookie_items :: "(string \<times> json) list \<Rightarrow> bool" where
  "valid_cookie_items [] = True"
| "valid_cookie_items ((name, JStr v) # rest) =
     (if \<not> is_ascii_encodable name \<or> \<not> is_ascii_encodable v then False
      else valid_cookie_items rest)"
| "valid_cookie_items ((name, other) # rest) = False"

definition is_valid_cookie :: "json \<Rightarrow> bool" where
  "is_valid_cookie cs = (case cs of JObj kvs \<Rightarrow> valid_cookie_items kvs | _ \<Rightarrow> False)"

text \<open>\<open>isinstance(value, (bytes, str, int))\<close>; a \<open>bool\<close> is an \<open>int\<close>.\<close>

fun is_bytes_str_int :: "json \<Rightarrow> bool" where
  "is_bytes_str_int (JBytes b) = True"
| "is_bytes_str_int (JStr s) = True"
| "is_bytes_str_int (JNum n) = True"
| "is_bytes_str_int (JBool b) = True"
| "is_bytes_str_int _ = False"

text \<open>A sequence of length 2 whose first item is a string: a list, or a string of two characters.\<close>

fun is_valid_item :: "json \<Rightarrow> bool" where
  "is_valid_item (JArr [JStr k, v]) = is_bytes_str_int v"
| "is_valid_item (JStr [a, b]) = True"
| "is_valid_item _ = False"

definition is_valid_form_data :: "json \<Rightarrow> bool" where
  "is_valid_form_data fd =
     (case fd of
        JObj kvs \<Rightarrow> list_all (\<lambda>(k, v). is_bytes_str_int v) kvs
      | JArr xs \<Rightarrow> list_all is_valid_item xs
      | _ \<Rightarrow> False)"

definition get_schema_strategy :: "generation \<Rightarrow> json \<Rightarrow> InputType \<Rightarrow> exn + json set" where
  "get_schema_strategy g v input_type =
     (case input_type of valid \<Rightarrow> from_schema g v | invalid \<Rightarrow> not_from_schema g v)"

text \<open>\<open>filter_path_parameters\<close> and \<open>quote_all\<close>, on the items of the dictionary.\<close>

fun is_composed :: "json \<Rightarrow> bool" where
  "is_composed (JArr xs) = True"
| "is_composed (JObj kvs) = True"
| "is_composed _ = False"

definition filter_path_parameters :: "(string \<times> json) list \<Rightarrow> bool" where
  "filter_path_parameters parameters =
     (if list_ex (\<lambda>(k, v). is_composed v) parameters then False
      else \<not> list_ex (\<lambda>(k, v). v = JStr ''.'') parameters)"

definition quote_all :: "generation \<Rightarrow> (string \<times> json) list \<Rightarrow> (string \<times> json) list" where
  "quote_all g parameters =
     map (\<lambda>(key, v). (key, case v of JStr s \<Rightarrow> JStr (quote_plus g s) | _ \<Rightarrow> v)) parameters"

text \<open>
  \<open>strategy.filter(filter_path_parameters).map(quote_all)\<close>. A value that is not a
  dictionary makes the filter raise when it is drawn, so it is not produced.
\<close>

definition path_parameters_strategy :: "generation \<Rightarrow> json set \<Rightarrow> json set" where
  "path_parameters_strategy g strategy =
     (\<lambda>v. case v of JObj kvs \<Rightarrow> JObj (quote_all g kvs) | _ \<Rightarrow> v)
       ` Set.filter (\<lambda>v. case v of JObj kvs \<Rightarrow> filter_path_parameters kvs | _ \<Rightarrow> False) strategy"

text \<open>
  The \<open>if\<close>/\<open>elif\<close> chain of \<open>get_case_strategy\<close>, in two steps: the branch the parameter
  name selects, and the strategy that branch builds.
\<close>

datatype branch =
    PathParametersBranch
  | HeadersCookiesBranch
  | QueryBranch
  | CookiesBranch
  | FormDataBranch
  | ElseBranch

definition select_branch :: "string \<Rightarrow> branch" where
  "select_branch parameter =
     (if parameter = ''path_parameters'' then PathParametersBranch
      else if List.member [''headers'', ''cookies''] parameter then HeadersCookiesBranch
      else if parameter = ''query'' then QueryBranch
      else if parameter = ''cookies'' then CookiesBranch
      else if parameter = ''form_data'' then FormDataBranch
      else ElseBranch)"

fun branch_strategy :: "generation \<Rightarrow> branch \<Rightarrow> json set \<Rightarrow> json set" where
  "branch_strategy g PathParametersBranch strategy = path_parameters_strategy g strategy"
| "branch_strategy g HeadersCookiesBranch strategy = Set.filter (is_valid_header g) strategy"
| "branch_strategy g QueryBranch strategy = Set.filter (is_valid_query g) strategy"
| "branch_strategy g CookiesBranch strategy = Set.filter is_valid_cookie strategy"
| "branch_strategy g FormDataBranch strategy = Set.filter is_valid_form_data strategy"
| "branch_strategy g ElseBranch strategy = strategy"

text \<open>\<open>getattr(endpoint, parameter)\<close> for the names of \<open>PARAMETERS\<close>.\<close>

definition endpoint_attr :: "Endpoint \<Rightarrow> string \<Rightarrow> json" where
  "endpoint_attr ep parameter =
     (if parameter = ''path_parameters'' then ep_path_parameters ep
      else if parameter = ''headers'' then ep_headers ep
      else if parameter = ''cookies'' then ep_cookies ep
      else if parameter = ''query'' then ep_query ep
      else if parameter = ''body'' then ep_body ep
      else ep_form_data ep)"

text \<open>
  \<open>st.builds(partial(Case, **static_parameters), **strategies)\<close>: the cases that can be
  drawn. The entry \<open>"endpoint"\<close> of \<open>static_parameters\<close> is always the endpoint and is
  passed on its own; the other entries are the list. A keyword the constructor of
  \<open>Case\<close> does not have makes every draw raise \<open>TypeError\<close>, so no case is produced.
\<close>

definition field_values :: "(string \<times> json) list \<Rightarrow> (string \<times> json set) list \<Rightarrow> string \<Rightarrow> json set" where
  "field_values static_parameters strategies k =
     (case map_of strategies k of
        Some strategy \<Rightarrow> strategy
      | None \<Rightarrow> (case map_of static_parameters k of Some v \<Rightarrow> {v} | None \<Rightarrow> {JNull}))"

definition builds :: "Endpoint \<Rightarrow> (string \<times> json) list \<Rightarrow> (string \<times> json set) list \<Rightarrow> Case set" where
  "builds ep static_parameters strategies =
     (if list_all (List.member PARAMETERS) (map fst static_parameters @ map fst strategies) then
        (\<lambda>(pp, h, ck, q, b, f).
            \<lparr>endpoint = ep, path_parameters = pp, headers = h, cookies = ck, query = q,
             body = b, form_data = f\<rparr>)
          ` (field_values static_parameters strategies ''path_parameters''
             \<times> field_values static_parameters strategies ''headers''
             \<times> field_values static_parameters strategies ''cookies''
             \<times> field_values static_parameters strategies ''query''
             \<times> field_values static_parameters strategies ''body''
             \<times> field_values static_parameters strategies ''form_data'')
      else {})"

definition private_apply_hooks ::
  "(string \<Rightarrow> (json set \<Rightarrow> json set) option) \<Rightarrow> (string \<times> json set) list \<Rightarrow> (string \<times> json set) list" where
  "private_apply_hooks getter strategies =
     map (\<lambda>(key, strategy). case getter key of None \<Rightarrow> (key, strategy) | Some hook \<Rightarrow> (key, hook strategy))
       strategies"

definition private_get_case_strategy ::
  "generation \<Rightarrow> Endpoint \<Rightarrow> (string \<times> json) list \<Rightarrow> (string \<times> json set) list \<Rightarrow> exn + Case set" where
  "private_get_case_strategy g ep extra_static_parameters strategies =
     (if ep_validate_schema ep \<and> ep_method ep = ''GET'' then
        (if ep_body ep \<noteq> JNull
         then Inl (InvalidSchema ''Body parameters are defined for GET request.'')
         else Inr (builds ep (AList.update ''body'' JNull extra_static_parameters)
                     (private_apply_hooks (schema_get_hook g)
                        (private_apply_hooks (get_hook g) (AList.delete ''body'' strategies)))))
      else Inr (builds ep extra_static_parameters
                  (private_apply_hooks (schema_get_hook g)
                     (private_apply_hooks (get_hook g) strategies))))"

text \<open>
  The loop of \<open>get_case_strategy\<close> over \<open>PARAMETERS\<close>: the two dictionaries it fills, or
  the exception of the first strategy that cannot be built.
\<close>

fun parameter_strategies ::
  "generation \<Rightarrow> Endpoint \<Rightarrow> InputType \<Rightarrow> string list
     \<Rightarrow> (string \<times> json) list \<times> (string \<times> json set) list
     \<Rightarrow> exn + (string \<times> json) list \<times> (string \<times> json set) list" where
  "parameter_strategies g ep input_type [] acc = Inr acc"
| "parameter_strategies g ep input_type (parameter # rest) (static_kwargs, strategies) =
     (if endpoint_attr ep parameter \<noteq> JNull then
        (case get_schema_strategy g (endpoint_attr ep parameter) input_type of
           Inl e \<Rightarrow> Inl e
         | Inr strategy \<Rightarrow>
             parameter_strategies g ep input_type rest
               (static_kwargs,
                AList.update parameter (branch_strategy g (select_branch parameter) strategy) strategies))
      else
        parameter_strategies g ep input_type rest
          (AList.update parameter JNull static_kwargs, strategies))"

definition input_type_name :: "InputType \<Rightarrow> json" where
  "input_type_name input_type = (case input_type of valid \<Rightarrow> JStr ''valid'' | invalid \<Rightarrow> JStr ''invalid'')"

text \<open>\<open>except AssertionError: raise InvalidSchema("Invalid schema for this endpoint")\<close>.\<close>

definition get_case_strategy :: "generation \<Rightarrow> Endpoint \<Rightarrow> InputType \<Rightarrow> exn + Case set" where
  "get_case_strategy g ep input_type =
     (case (case parameter_strategies g ep input_type PARAMETERS
                   ([(''input_type'', input_type_name input_type)], []) of
              Inl e \<Rightarrow> Inl e
            | Inr (static_kwargs, strategies) \<Rightarrow>
                private_get_case_strategy g ep static_kwargs strategies) of
        Inl e \<Rightarrow> if is_AssertionError e then Inl (InvalidSchema ''Invalid schema for this endpoint'') else Inl e
      | Inr cases \<Rightarrow> Inr cases)"

section \<open>Concrete inputs\<close>

definition notes_post :: Endpoint where
  "notes_post =
     \<lparr> ep_path = ''/notes'', ep_method = ''POST'', ep_validate_schema = True,
       ep_base_url = Some ''http://127.0.0.1:8080'', ep_path_parameters = JNull,
       ep_headers = JNull, ep_cookies = JNull, ep_query = JNull,
       ep_body = JObj [(''type'', JStr ''object'')], ep_form_data = JNull \<rparr>"

definition notes_post_case :: Case where
  "notes_post_case =
     \<lparr> endpoint = notes_post, path_parameters = JNull, headers = JNull, cookies = JNull,
       query = JNull, body = JObj [(''title'', JStr ''a'')], form_data = JNull \<rparr>"

definition users_get :: Endpoint where
  "users_get =
     \<lparr> ep_path = ''/users'', ep_method = ''GET'', ep_validate_schema = True,
       ep_base_url = Some ''http://127.0.0.1:8080'', ep_path_parameters = JNull,
       ep_headers = JNull, ep_cookies = JNull, ep_query = JNull, ep_body = JNull,
       ep_form_data = JNull \<rparr>"

definition health_get :: Endpoint where
  "health_get = users_get\<lparr>ep_path := ''/health''\<rparr>"

definition no_parameters :: "Endpoint \<Rightarrow> Case" where
  "no_parameters ep =
     \<lparr> endpoint = ep, path_parameters = JNull, headers = JNull, cookies = JNull,
       query = JNull, body = JNull, form_data = JNull \<rparr>"

definition plain_session :: Session where
  "plain_session = \<lparr> session_headers = [(''User-agent'', JStr ''schemathesis'')] \<rparr>"

definition reply :: "int \<Rightarrow> string \<Rightarrow> GenericResponse" where
  "reply code txt =
     \<lparr> url = ''http://127.0.0.1:8080'', status_code = code, content = Some txt,
       response_text = txt, response_headers = [], elapsed = 1 \<rparr>"

text \<open>The text \<open>{"id": 7}\<close>.\<close>

definition id_7_text :: string where
  "id_7_text = ''{'' @ [CHR 0x22] @ ''id'' @ [CHR 0x22] @ '': 7}''"

text \<open>
  A grouping helper that reads the first argument of each exception, as
  \<open>validate_response\<close> of \<open>models.py\<close> does (\<open>exc.args[0]\<close>): an exception without
  arguments makes it raise \<open>IndexError\<close>.
\<close>

fun first_arguments :: "string list list \<Rightarrow> exn + string list" where
  "first_arguments [] = Inr []"
| "first_arguments ([] # rest) = Inl IndexError"
| "first_arguments ((m # ms) # rest) =
     (case first_arguments rest of Inl e \<Rightarrow> Inl e | Inr ms' \<Rightarrow> Inr (m # ms'))"

definition group_first_arguments :: "string list list \<Rightarrow> exn + exn" where
  "group_first_arguments errs =
     (case first_arguments errs of Inl e \<Rightarrow> Inl e | Inr ms \<Rightarrow> Inr (GroupedException ms))"

text \<open>
  A server that answers 500 on \<open>/users\<close> and on \<open>/notes\<close> and 200 elsewhere, with the
  body given; \<open>json.loads\<close> on the two bodies used here.
\<close>

definition server :: "string \<Rightarrow> externals" where
  "server txt =
     \<lparr> loads = (\<lambda>s. if s = id_7_text then Some (JObj [(''id'', JNum 7)]) else None),
       b64encode = (\<lambda>s. s),
       seconds_str = (\<lambda>n. ''0.001''),
       time_str = ''1600000000.0'',
       args_str = (\<lambda>args. concat args),
       session_request =
         (\<lambda>c session timeout.
            Inr (reply (if ep_path (endpoint c) = ''/health'' then 200 else 500) txt)),
       get_grouped_exception = group_first_arguments \<rparr>"

definition not_a_server_error :: CheckFunction where
  "not_a_server_error =
     \<lparr> cf_name = ''not_a_server_error'',
       cf_call = (\<lambda>rsp c. if status_code rsp \<ge> 500 then AssertionFails [''5xx''] else Passes) \<rparr>"



text \<open>
  The Hypothesis test that runs the test body on one example and lets what it raises
  through.
\<close>

definition one_example :: "externals \<Rightarrow> Case \<Rightarrow> Session \<Rightarrow> int option \<Rightarrow> test_or_exception" where
  "one_example ext c session request_timeout =
     Test (\<lambda>cks result eio store_response.
       case network_test ext c cks result session request_timeout eio store_response of
         (result', st, raised) \<Rightarrow>
           \<lparr> out_result = result', out_store = st, out_output = [], out_raised = raised,
             out_seed = None, out_generated_seed = None \<rparr>)"

text \<open>
  Two endpoints run in order by the single-thread runner, one example each, with the
  check \<open>not_a_server_error\<close>: \<open>/users\<close> answers 500 and fails, \<open>/health\<close> answers 200.
\<close>

definition two_endpoints :: "(ExecutionEvent \<times> TestResultSet) list" where
  "two_endpoints =
     single_thread_execute
       [(users_get, one_example (server ''boom'') (no_parameters users_get) plain_session None),
        (health_get, one_example (server ''boom'') (no_parameters health_get) plain_session None)]
       [not_a_server_error] None empty_TestResultSet (Some [])"

definition users_get_failed :: TestResult where
  "users_get_failed =
     (new_TestResult users_get)
       \<lparr> checks := [\<lparr>check_name = ''not_a_server_error'', check_value = failure,
                      example = Some (no_parameters users_get), message = Some ''5xx''\<rparr>],
         status_codes := [500],
         response_error_results := [JStr ''boom''],
         response_elapsed_times := [''0.001 sec''] \<rparr>"

definition health_get_passed :: TestResult where
  "health_get_passed =
     (new_TestResult health_get)
       \<lparr> checks := [\<lparr>check_name = ''not_a_server_error'', check_value = success,
                      example = Some (no_parameters health_get), message = None\<rparr>],
         status_codes := [200],
         response_error_results := [JStr ''Success''],
         response_elapsed_times := [''0.001 sec''] \<rparr>"

text \<open>
  Collaborators of a local run: the application \<open>app:app\<close> can be imported and no other,
  the schema at one URL (or given as a dictionary) loads, and the runner yields the events
  of \<open>two_endpoints\<close>.
\<close>

definition local_run :: collaborators where
  "local_run =
     \<lparr> import_app = (\<lambda>a. if a = ''app:app'' then Inr a else Inl (OtherError ''ImportError'')),
       load_schema =
         (\<lambda>s ld app.
            case s of
              SchemaStr u \<Rightarrow>
                if u = ''http://127.0.0.1:8080/openapi.json''
                then Inr \<lparr>schema_app = (app \<noteq> None), endpoints_count = 2\<rparr>
                else Inl (OtherError ''ConnectionError'')
            | SchemaDict d \<Rightarrow> Inr \<lparr>schema_app = False, endpoints_count = 2\<rparr>),
       build_runner = (\<lambda>rc schema. None),
       private_execute = (\<lambda>rc schema. (two_endpoints, None)),
       start_time = 0,
       end_time = 5 \<rparr>"


text \<open>
  \<open>GET /notes/{note_id}\<close> with two declared dependencies: the path parameter \<open>note_id\<close>
  on the \<open>id\<close> that \<open>POST /notes\<close> returned, and the query parameter \<open>owner\<close> on the
  \<open>id\<close> that \<open>POST /users\<close> returned. The store holds the first and not the second.
\<close>

definition note_get :: Endpoint where
  "note_get = users_get\<lparr>ep_path := ''/notes/{note_id}''\<rparr>"

definition note_get_case :: Case where
  "note_get_case =
     \<lparr> endpoint = note_get, path_parameters = JObj [(''note_id'', JStr ''abc'')],
       headers = JNull, cookies = JNull, query = JObj [(''owner'', JStr ''xyz'')],
       body = JNull, form_data = JNull \<rparr>"

definition note_get_rules :: "(string \<times> (string \<times> string) list) list" where
  "note_get_rules =
     [(''path_parameters'', [(''note_id'', ''post:/notes:id'')]),
      (''query'', [(''owner'', ''post:/users:id'')])]"

definition note_get_order :: execute_in_order where
  "note_get_order =
     Some [(''get:/notes/{note_id}'', \<lparr>required = Some note_get_rules, store = None\<rparr>)]"

definition notes_only_store :: "DependencyStore option" where
  "notes_only_store = Some [(''post:/notes'', [(''id'', JNum 7)])]"

text \<open>
  A generation capability with no hooks: every schema has the same three candidate
  values, and a header value is invalid when it holds a line feed.
\<close>

definition candidates :: "json set" where
  "candidates = {JObj [(''sid'', JStr ''abc'')], JObj [(''sid'', JStr '''')], JNum 3}"

definition plain_generation :: generation where
  "plain_generation =
     \<lparr> from_schema = (\<lambda>schema. Inr candidates),
       not_from_schema = (\<lambda>schema. Inr {JNull}),
       quote_plus = (\<lambda>s. s),
       has_invalid_characters = (\<lambda>name v. CHR 0x0A \<in> set v),
       search_surrogate = (\<lambda>s. False),
       get_hook = (\<lambda>key. None),
       schema_get_hook = (\<lambda>key. None) \<rparr>"

definition users_get_with_cookies :: Endpoint where
  "users_get_with_cookies = users_get\<lparr>ep_cookies := JObj [(''type'', JStr ''object'')]\<rparr>"

definition users_get_with_body :: Endpoint where
  "users_get_with_body = users_get\<lparr>ep_body := JObj [(''type'', JStr ''object'')]\<rparr>"

text \<open>
  The same collaborators with a runner whose generator raises after its first event,
  and with a schema load that is interrupted from the keyboard.
\<close>

definition runner_fails :: collaborators where
  "runner_fails =
     local_run\<lparr>private_execute :=
       (\<lambda>rc schema. ([(BeforeExecution users_get, empty_TestResultSet)],
                      Some (OtherError ''ConnectionError'')))\<rparr>"

definition load_interrupted :: collaborators where
  "load_interrupted = local_run\<lparr>load_schema := (\<lambda>s ld app. Inl KeyboardInterrupt)\<rparr>"


section \<open>Derived flags and counts of the results\<close>

lemma count_results_Nil: "count_results p \<lparr>results = []\<rparr> = 0"
  by (simp add: count_results_def)

lemma count_results_Cons:
  "count_results p \<lparr>results = r # rs\<rparr> = (if p r then 1 else 0) + count_results p \<lparr>results = rs\<rparr>"
  by (simp add: count_results_def)

lemma counts_sum_list:
  "passed_count \<lparr>results = rs\<rparr> + failed_count \<lparr>results = rs\<rparr> + errored_count \<lparr>results = rs\<rparr>
     = int (length rs)
       + count_results (\<lambda>r. has_failures r \<and> has_errors r \<and> \<not> is_errored r) \<lparr>results = rs\<rparr>
       + count_results (\<lambda>r. is_errored r \<and> \<not> has_errors r \<and> \<not> has_failures r) \<lparr>results = rs\<rparr>"
proof (induction rs)
  case Nil
  show ?case
    by (simp add: passed_count_def failed_count_def errored_count_def count_results_Nil)
next
  case (Cons r rs)
  then show ?case
    unfolding passed_count_def failed_count_def errored_count_def count_results_Cons
    by (cases "has_errors r"; cases "has_failures r"; cases "is_errored r") simp_all
qed

text \<open>
  C1 (as the code has it). \<open>passed_count\<close> counts the results with no errors and no
  failures, \<open>failed_count\<close> those with failures and the errored flag unset,
  \<open>errored_count\<close> those with errors or the errored flag. No result is both passed and
  failed, and every result is counted at least once; but a result with a failure and a
  recorded error whose flag is unset is counted as failed and as errored, and a result
  whose flag is set with no error and no failure is counted as passed and as errored. So
  the three counts add up to the number of results plus the number of results of these
  two kinds, and to the number of results exactly when there are none.
\<close>

theorem counts_sum_with_overlap:
  "passed_count rs = int (length (filter (\<lambda>r. \<not> has_errors r \<and> \<not> has_failures r) (results rs)))
   \<and> failed_count rs = int (length (filter (\<lambda>r. has_failures r \<and> \<not> is_errored r) (results rs)))
   \<and> errored_count rs = int (length (filter (\<lambda>r. has_errors r \<or> is_errored r) (results rs)))
   \<and> count_results (\<lambda>r. (\<not> has_errors r \<and> \<not> has_failures r) \<and> (has_failures r \<and> \<not> is_errored r)) rs = 0
   \<and> passed_count rs + failed_count rs + errored_count rs
       = int (length (results rs))
         + count_results (\<lambda>r. has_failures r \<and> has_errors r \<and> \<not> is_errored r) rs
         + count_results (\<lambda>r. is_errored r \<and> \<not> has_errors r \<and> \<not> has_failures r) rs
   \<and> (count_results (\<lambda>r. has_failures r \<and> has_errors r \<and> \<not> is_errored r) rs = 0
        \<and> count_results (\<lambda>r. is_errored r \<and> \<not> has_errors r \<and> \<not> has_failures r) rs = 0
        \<longrightarrow> passed_count rs + failed_count rs + errored_count rs = int (length (results rs)))"
proof -
  have rs: "\<lparr>results = results rs\<rparr> = rs" by simp
  have len: "\<And>p. count_results p rs = int (length (filter p (results rs)))"
    by (simp add: count_results_def sum_list_triv)
  have excl: "count_results (\<lambda>r. (\<not> has_errors r \<and> \<not> has_failures r) \<and> (has_failures r \<and> \<not> is_errored r)) rs = 0"
    by (simp add: len)
  have total: "passed_count rs + failed_count rs + errored_count rs
       = int (length (results rs))
         + count_results (\<lambda>r. has_failures r \<and> has_errors r \<and> \<not> is_errored r) rs
         + count_results (\<lambda>r. is_errored r \<and> \<not> has_errors r \<and> \<not> has_failures r) rs"
    using counts_sum_list [of "results rs"] by (simp only: rs)
  show ?thesis
    using excl total by (simp add: passed_count_def failed_count_def errored_count_def len)
qed

text \<open>
  A result set of one fresh result, with no check, no error and the flag clear: the
  three counts add up to 1, the number of results.
\<close>

theorem counts_sum_with_overlap_witness:
  "passed_count \<lparr>results = [new_TestResult notes_post]\<rparr>
     + failed_count \<lparr>results = [new_TestResult notes_post]\<rparr>
     + errored_count \<lparr>results = [new_TestResult notes_post]\<rparr> = 1"
  using counts_sum_with_overlap [of "\<lparr>results = [new_TestResult notes_post]\<rparr>"]
  by (simp add: count_results_def new_TestResult_def has_errors_def has_failures_def)

text \<open>
  One result with a failed check and a recorded error whose flag is clear, and one
  result whose flag is set with no check and no error: in both result sets the three
  counts add up to 2.
\<close>

theorem counts_partition_counterexample:
  "passed_count \<lparr>results = [add_error (OtherError ''ConnectionError'') None
        (add_failure ''not_a_server_error'' notes_post_case ''500'' (new_TestResult notes_post))]\<rparr>
   + failed_count \<lparr>results = [add_error (OtherError ''ConnectionError'') None
        (add_failure ''not_a_server_error'' notes_post_case ''500'' (new_TestResult notes_post))]\<rparr>
   + errored_count \<lparr>results = [add_error (OtherError ''ConnectionError'') None
        (add_failure ''not_a_server_error'' notes_post_case ''500'' (new_TestResult notes_post))]\<rparr>
   = 2
   \<and> passed_count \<lparr>results = [mark_errored (new_TestResult notes_post)]\<rparr>
     + failed_count \<lparr>results = [mark_errored (new_TestResult notes_post)]\<rparr>
     + errored_count \<lparr>results = [mark_errored (new_TestResult notes_post)]\<rparr>
   = 2"
  by (simp add: passed_count_def failed_count_def errored_count_def count_results_def
      has_errors_def has_failures_def add_error_def add_failure_def mark_errored_def
      new_TestResult_def)

text \<open>
  C4 (as the code has it). \<open>has_failures\<close> holds iff some check has the failure status.
  \<open>has_errors\<close> holds iff an error was recorded: it reads the list of errors only, and
  the errored flag does not change it.
\<close>

theorem has_failures_has_errors_meaning:
  "has_failures r = (\<exists>c \<in> set (checks r). check_value c = failure)
   \<and> has_errors r = (errors r \<noteq> [])
   \<and> has_errors (r\<lparr>is_errored := b\<rparr>) = has_errors r
   \<and> has_errors (mark_errored r) = has_errors r"
  by (simp add: has_failures_def has_errors_def mark_errored_def list_ex_iff)

theorem has_errors_flag_counterexample:
  "errors (mark_errored (new_TestResult notes_post)) = []
   \<and> is_errored (mark_errored (new_TestResult notes_post))
   \<and> \<not> has_errors (mark_errored (new_TestResult notes_post))"
  by (simp add: has_errors_def mark_errored_def new_TestResult_def)

section \<open>The run loop with \<open>exit_first\<close>\<close>

lemma two_endpoints_steps:
  "two_endpoints =
     [(BeforeExecution users_get, \<lparr>results = []\<rparr>),
      (AfterExecution users_get_failed failure [], \<lparr>results = [users_get_failed]\<rparr>),
      (BeforeExecution health_get, \<lparr>results = [users_get_failed]\<rparr>),
      (AfterExecution health_get_passed success [],
       \<lparr>results = [users_get_failed, health_get_passed]\<rparr>)]"
  by code_simp

lemma execute_loop_exit_first:
  "find (\<lambda>s. is_trigger (fst s)) steps = Some (ev, rs) \<Longrightarrow>
   execute_loop True steps raised rset
     = (map fst (takeWhile (\<lambda>s. \<not> is_trigger (fst s)) steps), rs, None)"
  by (induction steps arbitrary: rset) (auto split: if_splits prod.splits)

lemma execute_loop_no_trigger:
  "execute_loop True steps raised rset = (evs, final, r) \<Longrightarrow> \<not> list_ex is_trigger evs"
  by (induction steps arbitrary: rset evs final r) (auto split: if_splits prod.splits)

text \<open>
  With \<open>exit_first\<close> set, the loop of \<open>execute\<close> tests each event before it yields it:
  at the first AfterExecution event whose status is failure or error it breaks, and that
  event is not passed on. The stream is Initialized, the events strictly before the
  triggering one, and Finished, which carries the results as they are at that moment
  (the triggering result is already appended); nothing of the remaining endpoints
  follows. The stream never holds an AfterExecution event with status failure or error.
\<close>

lemma exit_first_drops_trigger:
  "(find (\<lambda>s. is_trigger (fst s)) steps = Some (ev, rs) \<longrightarrow>
      execute True n t0 t1 (steps, raised)
        = (Initialized n t0 # map fst (takeWhile (\<lambda>s. \<not> is_trigger (fst s)) steps)
             @ [Finished rs (t1 - t0)], None))
   \<and> \<not> list_ex is_trigger (fst (execute True n t0 t1 (steps, raised)))"
  by (auto simp: execute_def execute_loop_exit_first split: prod.splits option.splits
        dest: execute_loop_no_trigger)

lemma exit_first_drops_trigger_two_endpoints:
  "find (\<lambda>s. is_trigger (fst s)) two_endpoints
     = Some (AfterExecution users_get_failed failure [], \<lparr>results = [users_get_failed]\<rparr>)
   \<and> execute True 2 0 5 (two_endpoints, None)
     = ([Initialized 2 0, BeforeExecution users_get,
         Finished \<lparr>results = [users_get_failed]\<rparr> 5], None)"
proof -
  have f: "find (\<lambda>s. is_trigger (fst s)) two_endpoints
     = Some (AfterExecution users_get_failed failure [], \<lparr>results = [users_get_failed]\<rparr>)"
    by (simp add: two_endpoints_steps)
  show ?thesis
    using f exit_first_drops_trigger
      [of two_endpoints "AfterExecution users_get_failed failure []"
          "\<lparr>results = [users_get_failed]\<rparr>" 2 0 5 None]
    by (simp add: two_endpoints_steps)
qed

text \<open>
  C2, the code at the failing input. The endpoints are run in the order [\<open>/users\<close>
  (fails), \<open>/health\<close> (ok)] with \<open>exit_first\<close> set. The runner's generator yields
  BeforeExecution and then AfterExecution with status failure for \<open>/users\<close>; the stream
  of \<open>execute\<close> is Initialized, BeforeExecution for \<open>/users\<close>, Finished. The
  AfterExecution event that stops the run is missing from it; \<open>/health\<close> is skipped and
  Finished carries the failed result.
\<close>

theorem exit_first_stream_evaluated:
  "map fst two_endpoints
     = [BeforeExecution users_get, AfterExecution users_get_failed failure [],
        BeforeExecution health_get, AfterExecution health_get_passed success []]
   \<and> fst (execute True 2 0 5 (two_endpoints, None))
     = [Initialized 2 0, BeforeExecution users_get,
        Finished \<lparr>results = [users_get_failed]\<rparr> 5]"
  by (simp add: two_endpoints_steps execute_def empty_TestResultSet_def)

section \<open>The entry point \<open>prepare\<close>\<close>

lemma catch_internal_escapes:
  "snd (catch_internal r) = Some e \<Longrightarrow> \<not> is_Exception e"
  by (auto simp: catch_internal_def split: prod.splits option.splits if_splits)

lemma execute_loop_all:
  "execute_loop False steps raised rset
     = (map fst steps, (if steps = [] then rset else snd (last steps)), raised)"
  by (induction steps arbitrary: rset) (auto split: if_splits prod.splits)

lemma execute_runner_raises:
  "execute False n t0 t1 (steps, Some e) = (Initialized n t0 # map fst steps, Some e)"
  by (simp add: execute_def execute_loop_all)

text \<open>
  C3 (as the code has it). \<open>prepare\<close> runs \<open>validate_loader\<close> before it builds the
  generator and outside every \<open>try\<close>: when the schema and the loader do not fit, the
  \<open>ValueError\<close> is raised to the caller and no event is produced. When the validation
  passes, every failure that derives from \<open>Exception\<close> is surfaced as the event
  InternalError, which ends the stream: alone for a failing application import, a
  failing schema load or a failing construction of the runner, and after the events
  already yielded for a failure while the runner executes (without \<open>exit_first\<close>, after
  Initialized and all the events of the runner's generator). A stream that ends without
  a failure is passed on as it is. An exception that does not derive from \<open>Exception\<close>
  is not caught and reaches the caller; nothing else does.
\<close>

theorem prepare_outcomes:
  "(validate_loader ld s = Some e1 \<longrightarrow> prepare env s ld app w x = ([], Some e1))
   \<and> (validate_loader ld s = None \<and> app = Some a \<and> import_app env a = Inl e2 \<longrightarrow>
        prepare env s ld app w x
          = (if is_Exception e2 then ([InternalError e2], None) else ([], Some e2)))
   \<and> (validate_loader ld s = None
        \<and> (app = None \<and> h = None \<or> app = Some a \<and> import_app env a = Inr a' \<and> h = Some a')
        \<and> load_schema env s ld h = Inl e3 \<longrightarrow>
        prepare env s ld app w x
          = (if is_Exception e3 then ([InternalError e3], None) else ([], Some e3)))
   \<and> (validate_loader ld s = None
        \<and> (app = None \<and> h = None \<or> app = Some a \<and> import_app env a = Inr a' \<and> h = Some a')
        \<and> load_schema env s ld h = Inr schema
        \<and> build_runner env (select_runner w schema) schema = Some e4 \<longrightarrow>
        prepare env s ld app w x
          = (if is_Exception e4 then ([InternalError e4], None) else ([], Some e4)))
   \<and> (validate_loader ld s = None
        \<and> (app = None \<and> h = None \<or> app = Some a \<and> import_app env a = Inr a' \<and> h = Some a')
        \<and> load_schema env s ld h = Inr schema
        \<and> build_runner env (select_runner w schema) schema = None
        \<and> execute x (endpoints_count schema) (start_time env) (end_time env)
             (private_execute env (select_runner w schema) schema) = (evs, None) \<longrightarrow>
        prepare env s ld app w x = (evs, None))
   \<and> (validate_loader ld s = None
        \<and> (app = None \<and> h = None \<or> app = Some a \<and> import_app env a = Inr a' \<and> h = Some a')
        \<and> load_schema env s ld h = Inr schema
        \<and> build_runner env (select_runner w schema) schema = None
        \<and> execute x (endpoints_count schema) (start_time env) (end_time env)
             (private_execute env (select_runner w schema) schema) = (evs, Some e5) \<longrightarrow>
        prepare env s ld app w x
          = (if is_Exception e5 then (evs @ [InternalError e5], None) else (evs, Some e5)))
   \<and> (validate_loader ld s = None
        \<and> (app = None \<and> h = None \<or> app = Some a \<and> import_app env a = Inr a' \<and> h = Some a')
        \<and> load_schema env s ld h = Inr schema
        \<and> build_runner env (select_runner w schema) schema = None
        \<and> private_execute env (select_runner w schema) schema = (steps, Some e6)
        \<and> is_Exception e6 \<longrightarrow>
        prepare env s ld app w False
          = (Initialized (endpoints_count schema) (start_time env) # map fst steps
               @ [InternalError e6], None))
   \<and> (validate_loader ld s = None \<and> snd (prepare env s ld app w x) = Some e7 \<longrightarrow>
        \<not> is_Exception e7)"
proof -
  have escapes: "validate_loader ld s = None \<Longrightarrow> snd (prepare env s ld app w x) = Some e7
      \<Longrightarrow> \<not> is_Exception e7"
    unfolding prepare_def execute_from_schema_def
    by (simp add: catch_internal_escapes)
  have runner: "validate_loader ld s = None \<Longrightarrow>
      (app = None \<and> h = None \<or> app = Some a \<and> import_app env a = Inr a' \<and> h = Some a') \<Longrightarrow>
      load_schema env s ld h = Inr schema \<Longrightarrow>
      build_runner env (select_runner w schema) schema = None \<Longrightarrow>
      private_execute env (select_runner w schema) schema = (steps, Some e6) \<Longrightarrow>
      is_Exception e6 \<Longrightarrow>
      prepare env s ld app w False
          = (Initialized (endpoints_count schema) (start_time env) # map fst steps
               @ [InternalError e6], None)"
    by (auto simp: prepare_def execute_from_schema_def catch_internal_def execute_runner_raises)
  have rest: "(validate_loader ld s = Some e1 \<longrightarrow> prepare env s ld app w x = ([], Some e1))
   \<and> (validate_loader ld s = None \<and> app = Some a \<and> import_app env a = Inl e2 \<longrightarrow>
        prepare env s ld app w x
          = (if is_Exception e2 then ([InternalError e2], None) else ([], Some e2)))
   \<and> (validate_loader ld s = None
        \<and> (app = None \<and> h = None \<or> app = Some a \<and> import_app env a = Inr a' \<and> h = Some a')
        \<and> load_schema env s ld h = Inl e3 \<longrightarrow>
        prepare env s ld app w x
          = (if is_Exception e3 then ([InternalError e3], None) else ([], Some e3)))
   \<and> (validate_loader ld s = None
        \<and> (app = None \<and> h = None \<or> app = Some a \<and> import_app env a = Inr a' \<and> h = Some a')
        \<and> load_schema env s ld h = Inr schema
        \<and> build_runner env (select_runner w schema) schema = Some e4 \<longrightarrow>
        prepare env s ld app w x
          = (if is_Exception e4 then ([InternalError e4], None) else ([], Some e4)))
   \<and> (validate_loader ld s = None
        \<and> (app = None \<and> h = None \<or> app = Some a \<and> import_app env a = Inr a' \<and> h = Some a')
        \<and> load_schema env s ld h = Inr schema
        \<and> build_runner env (select_runner w schema) schema = None
        \<and> execute x (endpoints_count schema) (start_time env) (end_time env)
             (private_execute env (select_runner w schema) schema) = (evs, None) \<longrightarrow>
        prepare env s ld app w x = (evs, None))
   \<and> (validate_loader ld s = None
        \<and> (app = None \<and> h = None \<or> app = Some a \<and> import_app env a = Inr a' \<and> h = Some a')
        \<and> load_schema env s ld h = Inr schema
        \<and> build_runner env (select_runner w schema) schema = None
        \<and> execute x (endpoints_count schema) (start_time env) (end_time env)
             (private_execute env (select_runner w schema) schema) = (evs, Some e5) \<longrightarrow>
        prepare env s ld app w x
          = (if is_Exception e5 then (evs @ [InternalError e5], None) else (evs, Some e5)))"
    by (auto simp: prepare_def execute_from_schema_def catch_internal_def)
  have runner': "validate_loader ld s = None
        \<and> (app = None \<and> h = None \<or> app = Some a \<and> import_app env a = Inr a' \<and> h = Some a')
        \<and> load_schema env s ld h = Inr schema
        \<and> build_runner env (select_runner w schema) schema = None
        \<and> private_execute env (select_runner w schema) schema = (steps, Some e6)
        \<and> is_Exception e6 \<longrightarrow>
        prepare env s ld app w False
          = (Initialized (endpoints_count schema) (start_time env) # map fst steps
               @ [InternalError e6], None)"
    using runner by (intro impI) (elim conjE)
  have escapes': "validate_loader ld s = None \<and> snd (prepare env s ld app w x) = Some e7 \<longrightarrow>
        \<not> is_Exception e7"
    using escapes by (intro impI) (elim conjE)
  show ?thesis
    by (intro conjI rest [THEN conjunct1] rest [THEN conjunct2, THEN conjunct1]
          rest [THEN conjunct2, THEN conjunct2, THEN conjunct1]
          rest [THEN conjunct2, THEN conjunct2, THEN conjunct2, THEN conjunct1]
          rest [THEN conjunct2, THEN conjunct2, THEN conjunct2, THEN conjunct2, THEN conjunct1]
          rest [THEN conjunct2, THEN conjunct2, THEN conjunct2, THEN conjunct2, THEN conjunct2]
          runner' escapes')
qed

theorem prepare_outcomes_witness:
  "prepare local_run (SchemaDict [(''openapi'', JStr ''3.0.2'')]) from_uri None 1 False
     = ([], Some (ValueError ''Dictionary as a schema is allowed only with `from_dict` loader''))
   \<and> prepare local_run (SchemaStr ''http://127.0.0.1:8080/openapi.json'') from_uri (Some ''missing:app'') 1 False
     = ([InternalError (OtherError ''ImportError'')], None)
   \<and> prepare local_run (SchemaStr ''http://127.0.0.1:9/openapi.json'') from_uri None 1 False
     = ([InternalError (OtherError ''ConnectionError'')], None)
   \<and> prepare local_run (SchemaStr ''http://127.0.0.1:9/openapi.json'') from_uri (Some ''app:app'') 1 False
     = ([InternalError (OtherError ''ConnectionError'')], None)
   \<and> prepare runner_fails (SchemaStr ''http://127.0.0.1:8080/openapi.json'') from_uri None 1 False
     = ([Initialized 2 0, BeforeExecution users_get, InternalError (OtherError ''ConnectionError'')],
        None)"
proof -
  let ?ok = "SchemaStr ''http://127.0.0.1:8080/openapi.json''"
  let ?down = "SchemaStr ''http://127.0.0.1:9/openapi.json''"
  have v1: "validate_loader from_uri (SchemaDict [(''openapi'', JStr ''3.0.2'')])
     = Some (ValueError ''Dictionary as a schema is allowed only with `from_dict` loader'')"
    by (simp add: validate_loader_def)
  have v2: "\<And>u. validate_loader from_uri (SchemaStr u) = None"
    by (simp add: validate_loader_def)
  have a: "prepare local_run (SchemaDict [(''openapi'', JStr ''3.0.2'')]) from_uri None 1 False
     = ([], Some (ValueError ''Dictionary as a schema is allowed only with `from_dict` loader''))"
    by (rule prepare_outcomes [THEN conjunct1, THEN mp, OF v1])
  have "prepare local_run ?ok from_uri (Some ''missing:app'') 1 False
     = (if is_Exception (OtherError ''ImportError'')
        then ([InternalError (OtherError ''ImportError'')], None)
        else ([], Some (OtherError ''ImportError'')))"
    by (rule prepare_outcomes [where a = "''missing:app''",
          THEN conjunct2, THEN conjunct1, THEN mp])
       (simp add: v2 local_run_def)
  then have b: "prepare local_run ?ok from_uri (Some ''missing:app'') 1 False
     = ([InternalError (OtherError ''ImportError'')], None)"
    by simp
  have "prepare local_run ?down from_uri None 1 False
     = (if is_Exception (OtherError ''ConnectionError'')
        then ([InternalError (OtherError ''ConnectionError'')], None)
        else ([], Some (OtherError ''ConnectionError'')))"
    by (rule prepare_outcomes [where h = None,
          THEN conjunct2, THEN conjunct2, THEN conjunct1, THEN mp])
       (simp add: v2 local_run_def)
  then have c: "prepare local_run ?down from_uri None 1 False
     = ([InternalError (OtherError ''ConnectionError'')], None)"
    by simp
  have "prepare local_run ?down from_uri (Some ''app:app'') 1 False
     = (if is_Exception (OtherError ''ConnectionError'')
        then ([InternalError (OtherError ''ConnectionError'')], None)
        else ([], Some (OtherError ''ConnectionError'')))"
    by (rule prepare_outcomes [where a = "''app:app''" and a' = "''app:app''"
            and h = "Some ''app:app''",
          THEN conjunct2, THEN conjunct2, THEN conjunct1, THEN mp])
       (simp add: v2 local_run_def)
  then have d: "prepare local_run ?down from_uri (Some ''app:app'') 1 False
     = ([InternalError (OtherError ''ConnectionError'')], None)"
    by simp
  have "prepare runner_fails ?ok from_uri None 1 False
     = (Initialized (endpoints_count \<lparr>schema_app = False, endpoints_count = 2\<rparr>)
            (start_time runner_fails)
          # map fst [(BeforeExecution users_get, empty_TestResultSet)]
          @ [InternalError (OtherError ''ConnectionError'')], None)"
    by (rule prepare_outcomes [where h = None and x = False,
          THEN conjunct2, THEN conjunct2, THEN conjunct2, THEN conjunct2, THEN conjunct2,
          THEN conjunct2, THEN conjunct1, THEN mp])
       (simp add: v2 runner_fails_def local_run_def)
  then have e: "prepare runner_fails ?ok from_uri None 1 False
     = ([Initialized 2 0, BeforeExecution users_get, InternalError (OtherError ''ConnectionError'')],
        None)"
    by (simp add: runner_fails_def local_run_def)
  show ?thesis
    using a b c d e by (intro conjI)
qed

text \<open>
  A dictionary given with the loader \<open>from_uri\<close>, and a URL given with the loader
  \<open>from_dict\<close>: the call raises \<open>ValueError\<close> and the stream is empty. A schema load
  interrupted from the keyboard: \<open>KeyboardInterrupt\<close> leaves the generator.
\<close>

theorem prepare_raises_counterexample:
  "prepare local_run (SchemaDict [(''openapi'', JStr ''3.0.2'')]) from_uri None 1 False
     = ([], Some (ValueError ''Dictionary as a schema is allowed only with `from_dict` loader''))
   \<and> prepare local_run (SchemaStr ''http://127.0.0.1:8080/openapi.json'') from_dict None 1 False
     = ([], Some (ValueError ''Schema should be a dictionary for `from_dict` loader''))
   \<and> prepare load_interrupted (SchemaStr ''http://127.0.0.1:8080/openapi.json'') from_uri None 1 False
     = ([], Some KeyboardInterrupt)"
  by code_simp

section \<open>The test body and the interactions\<close>

lemma checks_loop_interactions:
  "checks_loop ext c rsp cks result errs = (result', errs', r) \<Longrightarrow>
   interactions result' = interactions result"
  by (induction cks arbitrary: result errs)
     (auto simp: add_success_def add_failure_def split: check_outcome.splits)

lemma run_checks_interactions:
  "interactions (fst (run_checks ext c cks result rsp)) = interactions result"
  by (auto simp: run_checks_def Let_def add_status_code_def add_response_error_result_def
        add_response_elapsed_time_def
        split: prod.splits option.splits sum.splits dest: checks_loop_interactions)

text \<open>
  C9 (as the code has it). \<open>network_test\<close> does not call \<open>store_requests_response\<close>:
  whatever the case, the checks and the response, the list of interactions of the result
  is the same after the test body as before it, so no transport call is recorded. The
  method itself, when it is called, appends exactly one Interaction that pairs the
  request view of the case with the response.
\<close>

theorem network_test_records_no_interaction:
  "interactions (fst (network_test ext c cks result session request_timeout eio store_response))
     = interactions result
   \<and> interactions (store_requests_response ext c rsp result)
     = interactions result @ [\<lparr>request = from_case c, response = from_requests ext rsp\<rparr>]"
proof -
  have "interactions (fst (network_test ext c cks result session request_timeout eio store_response))
     = interactions result"
    using run_checks_interactions
    by (auto simp: network_test_def split: prod.splits option.splits sum.splits)
       (metis fst_conv)
  then show ?thesis
    by (simp add: store_requests_response_def interaction_from_requests_def)
qed

text \<open>
  One call that answers 500: the test body records the status code, and no interaction.
\<close>

theorem network_test_interaction_counterexample:
  "status_codes (fst (network_test (server ''boom'') (no_parameters users_get) [not_a_server_error]
      (new_TestResult users_get) plain_session None None (Some []))) = [500]
   \<and> interactions (fst (network_test (server ''boom'') (no_parameters users_get) [not_a_server_error]
      (new_TestResult users_get) plain_session None None (Some []))) = []"
  by code_simp

section \<open>Storing response fields\<close>

text \<open>
  With a declared dependency map, nothing is written after a status code above 204, and
  no exception leaves \<open>check_if_storing_required\<close>.
\<close>

lemma declared_store_respects_status:
  "declared eio \<Longrightarrow> status_code rsp > 204 \<Longrightarrow>
   check_if_storing_required ext c rsp eio store_response = (store_response, None)"
  by (auto simp: check_if_storing_required_def Let_def swallow_def split: option.splits)

lemma store_field_raises_Exception:
  "store_field ext key rsp to_store sr = (st, Some e) \<Longrightarrow> is_Exception e"
  by (auto simp: store_field_def dict_get_def split: option.splits sum.splits json.splits)

lemma store_fields_raises_Exception:
  "store_fields ext key rsp names sr = (st, Some e) \<Longrightarrow> is_Exception e"
  by (induction names arbitrary: sr)
     (auto split: prod.splits option.splits dest: store_field_raises_Exception)

lemma declared_store_swallows:
  "declared eio \<Longrightarrow> snd (check_if_storing_required ext c rsp eio sr) = None"
  by (auto simp: check_if_storing_required_def Let_def swallow_def
        split: option.splits prod.splits dest: store_fields_raises_Exception)

text \<open>
  C5, the code at the failing input. No dependency map is given and the endpoint is
  \<open>POST /notes\<close>, so the hard-coded branch runs. After a response with status 500 whose
  body is \<open>{"id": 7}\<close> the store holds \<open>id = 7\<close> under \<open>post:/notes\<close>; after a response
  with status 500 whose body is not JSON the decoding error leaves
  \<open>check_if_storing_required\<close> and the test body, before any check has run.
\<close>

theorem fallback_store_evaluated:
  "check_if_storing_required (server id_7_text) notes_post_case (reply 500 id_7_text) None (Some [])
     = (Some [(''post:/notes'', [(''id'', JNum 7)])], None)
   \<and> check_if_storing_required (server ''boom'') notes_post_case (reply 500 ''boom'') None (Some [])
     = (Some [], Some JSONDecodeError)
   \<and> snd (snd (network_test (server ''boom'') notes_post_case [not_a_server_error]
        (new_TestResult notes_post) plain_session None None (Some []))) = Some JSONDecodeError
   \<and> checks (fst (network_test (server ''boom'') notes_post_case [not_a_server_error]
        (new_TestResult notes_post) plain_session None None (Some []))) = []"
  by code_simp

section \<open>The check engine\<close>






section \<open>Resolving dependencies before the call\<close>

lemma get_set_location: "get_location typ (set_location typ d c) = d"
  by (simp add: get_location_def set_location_def)

lemma get_set_other_location:
  "location_name typ \<Longrightarrow> location_name typ' \<Longrightarrow> typ \<noteq> typ' \<Longrightarrow>
   get_location typ (set_location typ' d c) = get_location typ c"
  by (auto simp: get_location_def set_location_def location_name_def)

lemma resolve_fields_other_location:
  "location_name typ \<Longrightarrow> location_name typ' \<Longrightarrow> typ \<noteq> typ' \<Longrightarrow>
   resolve_fields sr typ' val c = (c', r) \<Longrightarrow> get_location typ c' = get_location typ c"
  by (induction val arbitrary: c)
     (auto simp: get_set_other_location split: sum.splits)

lemma setitem_other_key:
  "setitem d p v = Inr d' \<Longrightarrow> p \<noteq> fld \<Longrightarrow> dict_get d' fld = dict_get d fld"
  by (auto simp: setitem_def dict_get_def update_conv' split: json.splits)

lemma resolve_fields_failed_field:
  "\<forall>d. (fld, d) \<in> set val \<longrightarrow> isl (read_dependency sr d) \<Longrightarrow>
   resolve_fields sr typ val c = (c', r) \<Longrightarrow>
   dict_get (get_location typ c') fld = dict_get (get_location typ c) fld"
proof (induction val arbitrary: c)
  case Nil
  then show ?case by simp
next
  case (Cons rule rest)
  obtain p d where rule: "rule = (p, d)" by (cases rule)
  show ?case
  proof (cases "read_dependency sr d")
    case (Inl e)
    with Cons.prems rule show ?thesis by simp
  next
    case (Inr v)
    with Cons.prems(1) rule have ne: "p \<noteq> fld" by auto
    show ?thesis
    proof (cases "setitem (get_location typ c) p v")
      case (Inl e)
      with Cons.prems rule Inr show ?thesis by simp
    next
      case (Inr d')
      from Cons.prems(2) rule \<open>read_dependency sr d = Inr v\<close> Inr
      have rest: "resolve_fields sr typ rest (set_location typ d' c) = (c', r)" by simp
      from Cons.prems(1) have "\<forall>d. (fld, d) \<in> set rest \<longrightarrow> isl (read_dependency sr d)" by simp
      from Cons.IH [OF this rest]
      have "dict_get (get_location typ c') fld = dict_get d' fld"
        by (simp add: get_set_location)
      with setitem_other_key [OF Inr ne] show ?thesis by simp
    qed
  qed
qed

lemma resolve_required_failed_field:
  "location_name typ \<Longrightarrow>
   \<forall>val d. (typ, val) \<in> set req \<longrightarrow> (fld, d) \<in> set val \<longrightarrow> isl (read_dependency sr d) \<Longrightarrow>
   resolve_required sr req c = (c', r) \<Longrightarrow>
   dict_get (get_location typ c') fld = dict_get (get_location typ c) fld"
proof (induction req arbitrary: c)
  case Nil
  then show ?case by simp
next
  case (Cons loc rest)
  obtain typ' val where loc: "loc = (typ', val)" by (cases loc)
  from Cons.prems(2)
  have rest_ok: "\<forall>val d. (typ, val) \<in> set rest \<longrightarrow> (fld, d) \<in> set val \<longrightarrow> isl (read_dependency sr d)"
    by simp
  show ?case
  proof (cases "location_name typ'")
    case False
    with Cons.prems(3) loc have "resolve_required sr rest c = (c', r)"
      by (simp add: location_name_def)
    from Cons.IH [OF Cons.prems(1) rest_ok this] show ?thesis .
  next
    case True
    obtain c1 r1 where rf: "resolve_fields sr typ' val c = (c1, r1)"
      by (cases "resolve_fields sr typ' val c")
    have step: "dict_get (get_location typ c1) fld = dict_get (get_location typ c) fld"
    proof (cases "typ' = typ")
      case True
      with Cons.prems(2) loc have "\<forall>d. (fld, d) \<in> set val \<longrightarrow> isl (read_dependency sr d)"
        by simp
      from resolve_fields_failed_field [OF this] rf True show ?thesis by simp
    next
      case False
      with resolve_fields_other_location [OF Cons.prems(1) True _ rf] show ?thesis by simp
    qed
    show ?thesis
    proof (cases r1)
      case None
      with Cons.prems(3) loc True rf have "resolve_required sr rest c1 = (c', r)"
        by (simp add: location_name_def)
      from Cons.IH [OF Cons.prems(1) rest_ok this] step show ?thesis by simp
    next
      case (Some e)
      with Cons.prems(3) loc True rf have "c' = c1"
        by (simp add: location_name_def)
      with step show ?thesis by simp
    qed
  qed
qed

lemma read_dependency_raises_Exception:
  "read_dependency sr dep = Inl e \<Longrightarrow> is_Exception e"
  by (auto simp: read_dependency_def Let_def getitem_def get_store_result_def
        split: option.splits sum.splits if_splits)

lemma resolve_fields_raises_Exception:
  "resolve_fields sr typ val c = (c', Some e) \<Longrightarrow> is_Exception e"
  by (induction val arbitrary: c)
     (auto simp: setitem_def split: sum.splits json.splits dest: read_dependency_raises_Exception)

lemma resolve_required_raises_Exception:
  "resolve_required sr req c = (c', Some e) \<Longrightarrow> is_Exception e"
  by (induction req arbitrary: c)
     (auto split: if_splits prod.splits option.splits dest: resolve_fields_raises_Exception)

lemma declared_change_swallows:
  "declared eio \<Longrightarrow> snd (check_if_change_required ext c eio sr) = None"
  by (auto simp: check_if_change_required_def Let_def swallow_def
        split: option.splits prod.splits dest: resolve_required_raises_Exception)


text \<open>
  C6. Take a dependency rule declared for the endpoint of the case, at one of the three
  locations, whose read from the store fails. Then \<open>check_if_change_required\<close> returns
  without an exception, and the parameter the rule names has the value it was generated
  with. (Keys of a dictionary are unique, which the two \<open>distinct\<close> premises say of the
  association lists.)
\<close>

theorem dependency_read_failure_swallowed:
  assumes entry: "map_of (entries eio)
                    (lower (ep_method (endpoint c)) @ '':'' @ lower (ep_path (endpoint c))) = Some entry"
    and req: "required entry = Some req"
    and dreq: "distinct (map fst req)"
    and loc: "(typ, val) \<in> set req"
    and name: "location_name typ"
    and dval: "distinct (map fst val)"
    and rule: "(fld, dep) \<in> set val"
    and fails: "read_dependency sr dep = Inl e"
  shows "snd (check_if_change_required ext c eio sr) = None
         \<and> dict_get (get_location typ (fst (check_if_change_required ext c eio sr))) fld
           = dict_get (get_location typ c) fld"
proof -
  from entry have decl: "declared eio"
    by (auto simp: declared_def entries_def split: option.splits)
  from loc have ne: "req \<noteq> []" by auto
  obtain c' r where rr: "resolve_required sr req c = (c', r)"
    by (cases "resolve_required sr req c")
  have fst_eq: "fst (check_if_change_required ext c eio sr) = c'"
    using decl entry req ne rr
    by (simp add: check_if_change_required_def Let_def swallow_def split: option.splits)
  have all_fail: "\<forall>val' d. (typ, val') \<in> set req \<longrightarrow> (fld, d) \<in> set val' \<longrightarrow> isl (read_dependency sr d)"
  proof (intro allI impI)
    fix val' d
    assume a: "(typ, val') \<in> set req" and b: "(fld, d) \<in> set val'"
    from dreq loc a have "val' = val" by (metis eq_key_imp_eq_value)
    with b have "(fld, d) \<in> set val" by simp
    with dval rule have "d = dep" by (metis eq_key_imp_eq_value)
    with fails show "isl (read_dependency sr d)" by simp
  qed
  from resolve_required_failed_field [OF name all_fail rr] fst_eq declared_change_swallows [OF decl]
  show ?thesis by simp
qed

text \<open>
  The store holds the \<open>id\<close> of \<open>POST /notes\<close> and nothing of \<open>POST /users\<close>: the path
  parameter is overwritten with 7, the read for \<open>owner\<close> fails, \<open>owner\<close> keeps its
  generated value and nothing is raised.
\<close>

theorem dependency_read_failure_swallowed_witness:
  "read_dependency notes_only_store ''post:/users:id'' = Inl MissingDependency
   \<and> snd (check_if_change_required (server ''boom'') note_get_case note_get_order notes_only_store) = None
   \<and> dict_get (query (fst (check_if_change_required (server ''boom'') note_get_case note_get_order
         notes_only_store))) ''owner'' = Inr (JStr ''xyz'')
   \<and> check_if_change_required (server ''boom'') note_get_case note_get_order notes_only_store
     = (note_get_case\<lparr>path_parameters := JObj [(''note_id'', JNum 7)]\<rparr>, None)"
proof -
  have fails: "read_dependency notes_only_store ''post:/users:id'' = Inl MissingDependency"
    by code_simp
  have entry: "map_of (entries note_get_order)
       (lower (ep_method (endpoint note_get_case)) @ '':'' @ lower (ep_path (endpoint note_get_case)))
     = Some \<lparr>required = Some note_get_rules, store = None\<rparr>"
    by code_simp
  have t: "snd (check_if_change_required (server ''boom'') note_get_case note_get_order notes_only_store) = None
    \<and> dict_get (get_location ''query'' (fst (check_if_change_required (server ''boom'') note_get_case
          note_get_order notes_only_store))) ''owner''
      = dict_get (get_location ''query'' note_get_case) ''owner''"
    by (rule dependency_read_failure_swallowed
          [OF entry, where req = note_get_rules and val = "[(''owner'', ''post:/users:id'')]"
             and dep = "''post:/users:id''" and e = MissingDependency])
       (simp_all add: note_get_rules_def location_name_def fails)
  have q: "dict_get (get_location ''query'' note_get_case) ''owner'' = Inr (JStr ''xyz'')"
    by code_simp
  have whole: "check_if_change_required (server ''boom'') note_get_case note_get_order notes_only_store
     = (note_get_case\<lparr>path_parameters := JObj [(''note_id'', JNum 7)]\<rparr>, None)"
    by code_simp
  show ?thesis
    using fails t q whole by (simp add: get_location_def)
qed

text \<open>
  When no dependency map is given the hard-coded branch for \<open>/notes\<close> reads the store
  outside any \<open>try\<close>; that branch has no declared rule, and a failed read leaves it as
  an exception.
\<close>

lemma undeclared_read_propagates:
  "check_if_change_required (server ''boom'') note_get_case None (Some [])
     = (note_get_case, Some MissingDependency)"
  by code_simp

section \<open>The case strategy: GET and the body\<close>

lemma apply_hooks_absent:
  "map_of strategies k = None \<Longrightarrow> map_of (private_apply_hooks getter strategies) k = None"
  by (induction strategies) (auto simp: private_apply_hooks_def split: option.splits)

lemma builds_body:
  "map_of strategies ''body'' = None \<Longrightarrow> map_of static_parameters ''body'' = Some v \<Longrightarrow>
   c \<in> builds ep static_parameters strategies \<Longrightarrow> body c = v"
  by (auto simp: builds_def field_values_def split: if_splits)

text \<open>
  C8. \<open>_get_case_strategy\<close> on an endpoint with validation enabled and the method
  \<open>GET\<close>: when the endpoint has a body schema (\<open>endpoint.body\<close> is not \<open>None\<close>) it
  raises \<open>InvalidSchema\<close>; when it has none, it returns a strategy and every case that
  can be drawn from it has the body \<open>None\<close>, whatever the static parameters, the
  strategies and the hooks. With another method, or with validation disabled, it raises
  nothing.
\<close>

theorem get_with_body_rule:
  "(ep_validate_schema ep \<and> ep_method ep = ''GET'' \<and> ep_body ep \<noteq> JNull \<longrightarrow>
      private_get_case_strategy g ep static_parameters strategies
        = Inl (InvalidSchema ''Body parameters are defined for GET request.''))
   \<and> (ep_validate_schema ep \<and> ep_method ep = ''GET'' \<and> ep_body ep = JNull \<longrightarrow>
        (\<exists>cases. private_get_case_strategy g ep static_parameters strategies = Inr cases
                  \<and> (\<forall>c \<in> cases. body c = JNull)))
   \<and> (\<not> (ep_validate_schema ep \<and> ep_method ep = ''GET'') \<longrightarrow>
        (\<exists>cases. private_get_case_strategy g ep static_parameters strategies = Inr cases))"
proof -
  have gone: "map_of (private_apply_hooks (schema_get_hook g)
                 (private_apply_hooks (get_hook g) (AList.delete ''body'' strategies))) ''body'' = None"
    by (intro apply_hooks_absent) (simp add: delete_conv')
  have static: "map_of (AList.update ''body'' JNull static_parameters) ''body'' = Some JNull"
    by (simp add: update_conv')
  show ?thesis
    using builds_body [OF gone static]
    by (auto simp: private_get_case_strategy_def)
qed

theorem get_with_body_rule_witness:
  "private_get_case_strategy plain_generation users_get_with_body [] [(''body'', candidates)]
     = Inl (InvalidSchema ''Body parameters are defined for GET request.'')
   \<and> private_get_case_strategy plain_generation users_get []
       [(''cookies'', Set.filter (is_valid_header plain_generation) candidates), (''body'', {JNum 1})]
     = Inr {(no_parameters users_get)\<lparr>cookies := JObj [(''sid'', JStr ''abc'')]\<rparr>}
   \<and> body ((no_parameters users_get)\<lparr>cookies := JObj [(''sid'', JStr ''abc'')]\<rparr>) = JNull
   \<and> private_get_case_strategy plain_generation notes_post [] [(''body'', {JNum 1})]
     = Inr {(no_parameters notes_post)\<lparr>body := JNum 1\<rparr>}"
proof -
  have a: "private_get_case_strategy plain_generation users_get_with_body [] [(''body'', candidates)]
     = Inl (InvalidSchema ''Body parameters are defined for GET request.'')"
    by (rule get_with_body_rule [THEN conjunct1, THEN mp])
       (simp add: users_get_with_body_def users_get_def)
  have b: "private_get_case_strategy plain_generation users_get []
       [(''cookies'', Set.filter (is_valid_header plain_generation) candidates), (''body'', {JNum 1})]
     = Inr {(no_parameters users_get)\<lparr>cookies := JObj [(''sid'', JStr ''abc'')]\<rparr>}"
    by code_simp
  have "\<exists>cases. private_get_case_strategy plain_generation users_get []
       [(''cookies'', Set.filter (is_valid_header plain_generation) candidates), (''body'', {JNum 1})]
        = Inr cases \<and> (\<forall>c \<in> cases. body c = JNull)"
    by (rule get_with_body_rule [THEN conjunct2, THEN conjunct1, THEN mp])
       (simp add: users_get_def)
  with b have c: "body ((no_parameters users_get)\<lparr>cookies := JObj [(''sid'', JStr ''abc'')]\<rparr>) = JNull"
    by simp
  have "\<exists>cases. private_get_case_strategy plain_generation notes_post [] [(''body'', {JNum 1})]
          = Inr cases"
    by (rule get_with_body_rule [THEN conjunct2, THEN conjunct2, THEN mp])
       (simp add: notes_post_def)
  moreover have "private_get_case_strategy plain_generation notes_post [] [(''body'', {JNum 1})]
     = Inr {(no_parameters notes_post)\<lparr>body := JNum 1\<rparr>}"
    by code_simp
  ultimately show ?thesis
    using a b c by simp
qed

text \<open>
  The same error leaves \<open>get_case_strategy\<close> whenever the strategies of the parameters
  can be built.
\<close>

lemma get_case_strategy_get_with_body:
  "parameter_strategies g ep it PARAMETERS ([(''input_type'', input_type_name it)], []) = Inr r \<Longrightarrow>
   ep_validate_schema ep \<Longrightarrow> ep_method ep = ''GET'' \<Longrightarrow> ep_body ep \<noteq> JNull \<Longrightarrow>
   get_case_strategy g ep it = Inl (InvalidSchema ''Body parameters are defined for GET request.'')"
  by (cases r) (simp add: get_case_strategy_def private_get_case_strategy_def)

section \<open>The case strategy: the filter on cookies\<close>

lemma parameter_strategies_untouched:
  "parameter_strategies g ep it ps (st0, ss0) = Inr (st, ss) \<Longrightarrow> p \<notin> set ps \<Longrightarrow>
   map_of ss p = map_of ss0 p"
  by (induction ps arbitrary: st0 ss0)
     (auto simp: update_conv' split: if_splits sum.splits)

lemma parameter_strategies_filtered:
  "parameter_strategies g ep it ps (st0, ss0) = Inr (st, ss) \<Longrightarrow> p \<in> set ps \<Longrightarrow>
   endpoint_attr ep p \<noteq> JNull \<Longrightarrow> get_schema_strategy g (endpoint_attr ep p) it = Inr S \<Longrightarrow>
   map_of ss p = Some (branch_strategy g (select_branch p) S)"
proof (induction ps arbitrary: st0 ss0)
  case Nil
  then show ?case by simp
next
  case (Cons q rest)
  show ?case
  proof (cases "p \<in> set rest")
    case True
    with Cons show ?thesis
      by (auto split: if_splits sum.splits)
  next
    case False
    with Cons.prems have q: "q = p" by simp
    from Cons.prems q
    have "parameter_strategies g ep it rest
            (st0, AList.update p (branch_strategy g (select_branch p) S) ss0) = Inr (st, ss)"
      by simp
    from parameter_strategies_untouched [OF this False] show ?thesis
      by (simp add: update_conv')
  qed
qed

lemma valid_header_items_cookie: "valid_header_items g kvs \<Longrightarrow> valid_cookie_items kvs"
  by (induction g kvs rule: valid_header_items.induct) (auto split: if_splits)

text \<open>
  C10. In the chain of \<open>get_case_strategy\<close> the name \<open>cookies\<close> selects the branch of
  \<open>headers\<close>, and no name selects the later branch that would filter with
  \<open>is_valid_cookie\<close>. So for an endpoint with a cookies schema the strategy stored under
  \<open>cookies\<close> is the schema's strategy filtered by \<open>is_valid_header\<close>. Whatever
  \<open>is_valid_header\<close> accepts \<open>is_valid_cookie\<close> accepts, and not the other way round: a
  cookie with an empty value is a valid cookie and not a valid header.
\<close>

theorem cookies_filtered_as_headers:
  "select_branch ''cookies'' = HeadersCookiesBranch
   \<and> select_branch parameter \<noteq> CookiesBranch
   \<and> (ep_cookies ep \<noteq> JNull \<and> get_schema_strategy g (ep_cookies ep) it = Inr S
        \<and> parameter_strategies g ep it PARAMETERS acc = Inr (static_kwargs, strategies)
      \<longrightarrow> map_of strategies ''cookies'' = Some (Set.filter (is_valid_header g) S)
          \<and> (\<forall>v \<in> Set.filter (is_valid_header g) S. is_valid_header g v \<and> is_valid_cookie v))
   \<and> (is_valid_header g v \<longrightarrow> is_valid_cookie v)
   \<and> is_valid_cookie (JObj [(''a'', JStr [])])
   \<and> \<not> is_valid_header g (JObj [(''a'', JStr [])])"
proof -
  have stronger: "\<And>v. is_valid_header g v \<Longrightarrow> is_valid_cookie v"
    by (auto simp: is_valid_header_def is_valid_cookie_def split: json.splits
          dest: valid_header_items_cookie)
  have strat: "ep_cookies ep \<noteq> JNull \<Longrightarrow> get_schema_strategy g (ep_cookies ep) it = Inr S \<Longrightarrow>
      parameter_strategies g ep it PARAMETERS acc = Inr (static_kwargs, strategies) \<Longrightarrow>
      map_of strategies ''cookies'' = Some (Set.filter (is_valid_header g) S)"
    using parameter_strategies_filtered [of g ep it PARAMETERS "fst acc" "snd acc" static_kwargs
        strategies "''cookies''" S]
    by (simp add: PARAMETERS_def endpoint_attr_def select_branch_def)
  have strict: "is_valid_cookie (JObj [(''a'', JStr [])])"
               "\<not> is_valid_header g (JObj [(''a'', JStr [])])"
    by (simp_all add: is_valid_cookie_def is_valid_header_def is_ascii_encodable_def)
  have branch: "select_branch ''cookies'' = HeadersCookiesBranch"
               "select_branch parameter \<noteq> CookiesBranch"
    by (simp_all add: select_branch_def)
  show ?thesis
    using stronger strat strict branch by auto
qed

theorem cookies_filtered_as_headers_witness:
  "select_branch ''cookies'' = HeadersCookiesBranch
   \<and> parameter_strategies plain_generation users_get_with_cookies valid PARAMETERS
         ([(''input_type'', JStr ''valid'')], [])
     = Inr ([(''input_type'', JStr ''valid''), (''path_parameters'', JNull), (''headers'', JNull),
             (''query'', JNull), (''body'', JNull), (''form_data'', JNull)],
            [(''cookies'', {JObj [(''sid'', JStr ''abc'')]})])
   \<and> Set.filter (is_valid_header plain_generation) candidates = {JObj [(''sid'', JStr ''abc'')]}
   \<and> is_valid_cookie (JObj [(''sid'', JStr ''abc'')])"
proof -
  let ?acc = "([(''input_type'', JStr ''valid'')], [])"
  let ?st = "[(''input_type'', JStr ''valid''), (''path_parameters'', JNull), (''headers'', JNull),
             (''query'', JNull), (''body'', JNull), (''form_data'', JNull)]"
  let ?ss = "[(''cookies'', {JObj [(''sid'', JStr ''abc'')]})]"
  have ps: "parameter_strategies plain_generation users_get_with_cookies valid PARAMETERS ?acc
     = Inr (?st, ?ss)"
    by code_simp
  have ck: "ep_cookies users_get_with_cookies \<noteq> JNull"
    by (simp add: users_get_with_cookies_def)
  have gs: "get_schema_strategy plain_generation (ep_cookies users_get_with_cookies) valid
     = Inr candidates"
    by (simp add: get_schema_strategy_def plain_generation_def)
  note t = cookies_filtered_as_headers [of "''cookies''" users_get_with_cookies plain_generation
             valid candidates ?acc ?st ?ss "JObj [(''sid'', JStr ''abc'')]"]
  have hv: "is_valid_header plain_generation (JObj [(''sid'', JStr ''abc'')])"
    by code_simp
  from t [THEN conjunct2, THEN conjunct2, THEN conjunct1, THEN mp, OF conjI [OF ck conjI [OF gs ps]]]
  have f: "Set.filter (is_valid_header plain_generation) candidates = {JObj [(''sid'', JStr ''abc'')]}"
    by simp
  from t [THEN conjunct2, THEN conjunct2, THEN conjunct2, THEN conjunct1, THEN mp, OF hv]
  have vc: "is_valid_cookie (JObj [(''sid'', JStr ''abc'')])" .
  from t [THEN conjunct1] ps f vc show ?thesis by simp
qed

text \<open>
  \<open>get_case_strategy\<close> passes the keyword \<open>input_type\<close> on to the constructor of
  \<open>Case\<close>, which \<open>models.py\<close> does not give that attribute: no case can be drawn from
  the strategy it returns. The two results above are therefore stated on
  \<open>_get_case_strategy\<close> and on the strategies of the parameters.
\<close>

lemma parameter_strategies_keeps_static:
  "parameter_strategies g ep it ps (st0, ss0) = Inr (st, ss) \<Longrightarrow> k \<in> fst ` set st0 \<Longrightarrow>
   k \<in> fst ` set st"
proof (induction ps arbitrary: st0 ss0)
  case Nil
  then show ?case by simp
next
  case (Cons q rest)
  have "k \<in> fst ` set (AList.update q JNull st0)"
    using Cons.prems(2) by (simp add: dom_update)
  with Cons show ?case
    by (auto split: if_splits sum.splits)
qed

lemma builds_unknown_keyword:
  "k \<in> fst ` set static_parameters \<Longrightarrow> k \<notin> set PARAMETERS \<Longrightarrow>
   builds ep static_parameters strategies = {}"
  by (auto simp: builds_def list_all_iff)

lemma get_case_strategy_draws_nothing:
  assumes "get_case_strategy g ep it = Inr cases"
  shows "cases = {}"
proof -
  from assms obtain st ss where
    ps: "parameter_strategies g ep it PARAMETERS ([(''input_type'', input_type_name it)], []) = Inr (st, ss)"
    and pg: "private_get_case_strategy g ep st ss = Inr cases"
    by (auto simp: get_case_strategy_def split: sum.splits if_splits)
  from parameter_strategies_keeps_static [OF ps, of "''input_type''"]
  have k: "''input_type'' \<in> fst ` set st" by simp
  then have k': "''input_type'' \<in> fst ` set (AList.update ''body'' JNull st)"
    by (simp add: dom_update)
  have n: "''input_type'' \<notin> set PARAMETERS" by (simp add: PARAMETERS_def)
  from pg builds_unknown_keyword [OF k n] builds_unknown_keyword [OF k' n] show ?thesis
    by (auto simp: private_get_case_strategy_def split: if_splits)
qed

end
